theory Spec2Isabelle
  imports Complex_Main
begin

section \<open>Numbers, errors and small helpers\<close>

text \<open>
  The simulator of \<^verbatim>\<open>weapon.py\<close> computes with Python floats and numpy float arrays.
  The embedding idealises every float as a \<^typ>\<open>real\<close>: the formulas, their order, the
  rounding rule (half to even) and every raise are those of the source, while rounding
  error, overflow and infinities of the binary format are not represented. The one
  place where numpy produces \<^verbatim>\<open>nan\<close> from finite inputs (division of an array by a
  quantum of 0) is written out, see \<open>quantized_ref\<close> below.
\<close>

datatype error = AttributeError | IndexError | ValueError | ZeroDivisionError

text \<open>\<^verbatim>\<open>round(x, 0)\<close> and \<^verbatim>\<open>np.round(x, 0)\<close>: nearest integer, a tie goes to the even one.\<close>

definition py_round :: "real \<Rightarrow> int" where
  "py_round x =
     (let f = \<lfloor>x\<rfloor>; d = x - of_int f
      in if d < 1 / 2 then f
         else if 1 / 2 < d then f + 1
         else if even f then f else f + 1)"

text \<open>\<^verbatim>\<open>int(x)\<close> on a float truncates toward zero.\<close>

definition py_int :: "real \<Rightarrow> int" where
  "py_int x = (if 0 \<le> x then \<lfloor>x\<rfloor> else \<lceil>x\<rceil>)"

text \<open>\<^verbatim>\<open>x % 1\<close> on a float has the sign of the divisor: it lies in [0, 1).\<close>

definition py_mod1 :: "real \<Rightarrow> real" where
  "py_mod1 x = x - of_int \<lfloor>x\<rfloor>"

text \<open>\<^verbatim>\<open>d.get(key, default)\<close> on an optional field of a data record.\<close>

definition dict_get :: "'a option \<Rightarrow> 'a \<Rightarrow> 'a" where
  "dict_get v dflt = (case v of None \<Rightarrow> dflt | Some x \<Rightarrow> x)"

section \<open>The Parameter family\<close>

record Parameter =
  base :: real
  modded :: real

record ModifyParameter =
  base :: real
  modded :: real
  current :: real

text \<open>
  A \<^verbatim>\<open>DamageParameter\<close> holds three references to numpy arrays. The constructor stores
  the same array object in all three fields, \<^verbatim>\<open>reset\<close> makes them aliases again and
  \<^verbatim>\<open>apply_mods\<close> writes into \<^verbatim>\<open>elementalDamagePerShot.modded\<close> in place, so the fields
  are addresses into the store \<open>arrays\<close> of the fire mode. The array that
  \<^verbatim>\<open>np.round(v / quanta, 0) * quanta\<close> yields for \<^verbatim>\<open>quanta == 0\<close> has \<^verbatim>\<open>nan\<close> in every slot
  (numpy warns and does not raise); it is fresh and nothing else refers to it, so it
  is the value \<open>NaNs\<close> rather than a cell of the store.
\<close>

datatype quantized_ref = Array nat | NaNs

record DamageParameter =
  base :: nat
  modded :: nat
  quantized :: quantized_ref

definition Parameter_init :: "real \<Rightarrow> Parameter" where
  "Parameter_init b = \<lparr>Parameter.base = b, Parameter.modded = b\<rparr>"

definition ModifyParameter_init :: "real \<Rightarrow> ModifyParameter" where
  "ModifyParameter_init b =
     \<lparr>ModifyParameter.base = b, ModifyParameter.modded = b, current = b\<rparr>"

definition DamageParameter_init :: "nat \<Rightarrow> DamageParameter" where
  "DamageParameter_init a =
     \<lparr>DamageParameter.base = a, DamageParameter.modded = a, quantized = Array a\<rparr>"

definition Parameter_reset :: "Parameter \<Rightarrow> Parameter" where
  "Parameter_reset p = p\<lparr>Parameter.modded := Parameter.base p\<rparr>"

definition ModifyParameter_reset :: "ModifyParameter \<Rightarrow> ModifyParameter" where
  "ModifyParameter_reset p =
     (let p1 = p\<lparr>ModifyParameter.modded := ModifyParameter.base p\<rparr>
      in p1\<lparr>current := ModifyParameter.modded p1\<rparr>)"

definition DamageParameter_reset :: "DamageParameter \<Rightarrow> DamageParameter" where
  "DamageParameter_reset p =
     (let p1 = p\<lparr>DamageParameter.modded := DamageParameter.base p\<rparr>
      in p1\<lparr>quantized := Array (DamageParameter.base p1)\<rparr>)"

section \<open>Modifier buckets\<close>

text \<open>
  Each bucket is a dict with a fixed set of string keys, created by the constructor
  and only ever overwritten key by key; it is a record with one field per key.
\<close>

record damage_bucket =
  base :: real
  condition_overload_base :: real
  condition_overload_multiplier :: real
  direct :: real
  final_multiplier :: real
  multishot_multiplier :: real

record bonus_damage_bucket =
  additive_base :: real

record critical_chance_bucket =
  base :: real
  additive_base :: real
  additive_final :: real
  covenant :: real
  deadly_munitions :: real

record critical_multiplier_bucket =
  base :: real
  additive_base :: real
  additive_final :: real
  final_multiplier :: real

record proc_chance_bucket =
  base :: real
  additive_base :: real
  additive_final :: real
  final_multiplier :: real
  multishot_multiplier :: real

record base_bucket =
  base :: real

record fire_rate_bucket =
  base :: real
  final_multiplier :: real

record element_bucket =
  base :: real
  uncombinable :: real

record physical_bucket =
  base :: real
  stance :: real

record ammo_cost_bucket =
  base :: real
  energized_munitions :: real

section \<open>Data records, fire mode effects and fire modes\<close>

record EffectData =
  damagePerShot :: "real list option"
  criticalChance :: "real option"
  criticalMultiplier :: "real option"
  procChance :: "real option"
  multishot :: "real option"
  embedDelay :: "real option"
  forcedProc :: "nat list option"

record FireModeData =
  trigger :: "string option"
  damagePerShot :: "real list option"
  criticalChance :: "real option"
  criticalMultiplier :: "real option"
  procChance :: "real option"
  magazineSize :: "real option"
  fireRate :: "real option"
  reloadTime :: "real option"
  multishot :: "real option"
  ammoCost :: "real option"
  chargeTime :: "real option"
  embedDelay :: "real option"
  forcedProc :: "nat list option"
  secondaryEffects :: "(string \<times> EffectData) list"

text \<open>
  A field of a \<^verbatim>\<open>FireModeEffect\<close> that its data record does not give is bound to the
  default argument of \<^verbatim>\<open>data.get\<close>, which for the damage, critical and status fields
  is the parent's parameter object itself (not a number): \<open>Parent_parameter\<close> is that
  reference.
\<close>

datatype 'a inherited = Own 'a | Parent_parameter

record FireModeEffect =
  fire_mode :: string
  name :: string
  next_event_timestamp :: real
  damagePerShot :: "real list inherited"
  criticalChance :: "real inherited"
  criticalMultiplier :: "real inherited"
  procChance :: "real inherited"
  multishot :: real
  embedDelay :: real
  forcedProc :: "nat list"

datatype cumulative = Cumulative_array "real list" | Cumulative_int int

record FireMode =
  name :: string
  fire_mode_effects :: "FireModeEffect list"
  attack_index :: int
  trigger :: string
  damagePerShot :: DamageParameter
  elementalDamagePerShot :: DamageParameter
  criticalChance :: Parameter
  criticalMultiplier :: Parameter
  procChance :: Parameter
  procProbabilities :: "real list"
  procCumulativeProbabilities :: cumulative
  magazineSize :: ModifyParameter
  fireRate :: Parameter
  reloadTime :: Parameter
  multishot :: Parameter
  ammoCost :: Parameter
  chargeTime :: Parameter
  embedDelay :: Parameter
  forcedProc :: "nat list"
  radial :: bool
  damagePerShot_m :: damage_bucket
  bonusDamagePerShot_m :: bonus_damage_bucket
  criticalChance_m :: critical_chance_bucket
  criticalMultiplier_m :: critical_multiplier_bucket
  procChance_m :: proc_chance_bucket
  magazineSize_m :: base_bucket
  fireRate_m :: fire_rate_bucket
  reloadTime_m :: base_bucket
  multishot_m :: base_bucket
  heat_m :: element_bucket
  cold_m :: element_bucket
  electric_m :: element_bucket
  toxin_m :: element_bucket
  blast_m :: base_bucket
  radiation_m :: base_bucket
  gas_m :: base_bucket
  magnetic_m :: base_bucket
  viral_m :: base_bucket
  corrosive_m :: base_bucket
  impact_m :: physical_bucket
  puncture_m :: physical_bucket
  slash_m :: physical_bucket
  statusDuration_m :: base_bucket
  factionDamage_m :: base_bucket
  ammoCost_m :: ammo_cost_bucket
  refresh :: bool
  arrays :: "nat \<Rightarrow> real list"


section \<open>Construction of a fire mode effect\<close>

text \<open>
  \<^verbatim>\<open>FireModeEffect.__init__\<close>. The arguments of \<^verbatim>\<open>data.get(key, default)\<close> are evaluated
  before the lookup, so the parent's \<^verbatim>\<open>damagePerShot\<close>, \<^verbatim>\<open>criticalChance\<close>,
  \<^verbatim>\<open>criticalMultiplier\<close> and \<^verbatim>\<open>procChance\<close> attributes are read whatever the record holds.
  The parent is \<open>None\<close> when these attributes are not assigned yet (the call at line 45
  of \<^verbatim>\<open>FireMode.__init__\<close> comes before line 50) and the read raises. The constant
  \<^verbatim>\<open>constants.MAX_TIME_OFFSET\<close> is not part of the source file and is a parameter.
\<close>

definition FireModeEffect_init ::
  "real \<Rightarrow> FireMode option \<Rightarrow> string \<Rightarrow> EffectData \<Rightarrow> error + FireModeEffect" where
  "FireModeEffect_init MAX_TIME_OFFSET parent nm data =
     (case parent of
        None \<Rightarrow> Inl AttributeError
      | Some fm \<Rightarrow>
          Inr \<lparr>FireModeEffect.fire_mode = FireMode.name fm,
               FireModeEffect.name = nm,
               next_event_timestamp = MAX_TIME_OFFSET,
               FireModeEffect.damagePerShot =
                 (case EffectData.damagePerShot data of
                    Some v \<Rightarrow> Own v | None \<Rightarrow> Parent_parameter),
               FireModeEffect.criticalChance =
                 (case EffectData.criticalChance data of
                    Some v \<Rightarrow> Own v | None \<Rightarrow> Parent_parameter),
               FireModeEffect.criticalMultiplier =
                 (case EffectData.criticalMultiplier data of
                    Some v \<Rightarrow> Own v | None \<Rightarrow> Parent_parameter),
               FireModeEffect.procChance =
                 (case EffectData.procChance data of
                    Some v \<Rightarrow> Own v | None \<Rightarrow> Parent_parameter),
               FireModeEffect.multishot = dict_get (EffectData.multishot data) 1,
               FireModeEffect.embedDelay = dict_get (EffectData.embedDelay data) 0,
               FireModeEffect.forcedProc = dict_get (EffectData.forcedProc data) []\<rparr>)"

text \<open>The list comprehension of line 45: the first constructor that raises ends it.\<close>

fun build_effects ::
  "real \<Rightarrow> FireMode option \<Rightarrow> (string \<times> EffectData) list \<Rightarrow> error + FireModeEffect list" where
  "build_effects M parent [] = Inr []"
| "build_effects M parent ((nm, data) # rest) =
     (case FireModeEffect_init M parent nm data of
        Inl e \<Rightarrow> Inl e
      | Inr fme \<Rightarrow>
          (case build_effects M parent rest of
             Inl e \<Rightarrow> Inl e
           | Inr fmes \<Rightarrow> Inr (fme # fmes)))"

section \<open>reset, load\_mods and apply\_mods\<close>

definition reset :: "FireMode \<Rightarrow> FireMode" where
  "reset self =
     self\<lparr>attack_index := 1,
          FireMode.damagePerShot := DamageParameter_reset (FireMode.damagePerShot self),
          elementalDamagePerShot := DamageParameter_reset (elementalDamagePerShot self),
          FireMode.criticalChance := Parameter_reset (FireMode.criticalChance self),
          FireMode.criticalMultiplier := Parameter_reset (FireMode.criticalMultiplier self),
          FireMode.procChance := Parameter_reset (FireMode.procChance self),
          magazineSize := ModifyParameter_reset (magazineSize self),
          fireRate := Parameter_reset (fireRate self),
          reloadTime := Parameter_reset (reloadTime self),
          FireMode.multishot := Parameter_reset (FireMode.multishot self),
          ammoCost := Parameter_reset (ammoCost self),
          chargeTime := Parameter_reset (chargeTime self),
          FireMode.embedDelay := Parameter_reset (FireMode.embedDelay self)\<rparr>"

definition load_mods :: "FireMode \<Rightarrow> FireMode" where
  "load_mods self =
     self\<lparr>damagePerShot_m :=
            (damagePerShot_m self)\<lparr>damage_bucket.base := 0,
                                   damage_bucket.final_multiplier := 1\<rparr>\<rparr>"

text \<open>
  The addresses a \<^verbatim>\<open>DamageParameter\<close> refers to. A new numpy array is an object distinct
  from every array still referred to; the store gives it the successor of the largest
  address that one of the two damage parameters holds.
\<close>

definition addresses :: "DamageParameter \<Rightarrow> nat list" where
  "addresses p =
     [DamageParameter.base p, DamageParameter.modded p] @
     (case quantized p of Array a \<Rightarrow> [a] | NaNs \<Rightarrow> [])"

definition new_array_address :: "FireMode \<Rightarrow> nat" where
  "new_array_address self =
     Suc (Max (set (addresses (FireMode.damagePerShot self) @
                    addresses (elementalDamagePerShot self))))"

text \<open>An expression that builds a new numpy array: the array goes to an unused address.\<close>

definition new_array :: "FireMode \<Rightarrow> real list \<Rightarrow> nat \<times> FireMode" where
  "new_array self v =
     (let a = new_array_address self in (a, self\<lparr>arrays := (arrays self)(a := v)\<rparr>))"

text \<open>\<^verbatim>\<open>np.round(v / quanta, 0) * quanta\<close>; \<open>None\<close> is the array of \<^verbatim>\<open>nan\<close> for a quantum of 0.\<close>

definition quantize :: "real \<Rightarrow> real list \<Rightarrow> real list option" where
  "quantize quanta v =
     (if quanta = 0 then None
      else Some (map (\<lambda>x. of_int (py_round (x / quanta)) * quanta) v))"

definition new_quantized :: "FireMode \<Rightarrow> real list option \<Rightarrow> quantized_ref \<times> FireMode" where
  "new_quantized self q =
     (case q of
        None \<Rightarrow> (NaNs, self)
      | Some v \<Rightarrow> (let (a, self') = new_array self v in (Array a, self')))"

text \<open>
  \<^verbatim>\<open>FireMode.apply_mods\<close>, in the blocks its comments mark. Lines 127--133, "Damage":
  the modded damage is a new array.
\<close>

definition apply_damage :: "FireMode \<Rightarrow> FireMode" where
  "apply_damage self =
     (let dm = damagePerShot_m self;
          base_damage = arrays self (DamageParameter.base (FireMode.damagePerShot self));
          weights = map (\<lambda>b. b / max (sum_list base_damage) (1 / 100)) base_damage;
          damagePerShot_bonus =
            map (\<lambda>w. w * bonus_damage_bucket.additive_base (bonusDamagePerShot_m self)) weights;
          (a, s) =
            new_array self
              (map2 (\<lambda>b bonus. (b + bonus) * (1 + damage_bucket.base dm) *
                                damage_bucket.multishot_multiplier dm *
                                damage_bucket.final_multiplier dm)
                 base_damage damagePerShot_bonus)
      in s\<lparr>FireMode.damagePerShot :=
             (FireMode.damagePerShot s)\<lparr>DamageParameter.modded := a\<rparr>\<rparr>)"

text \<open>
  Lines 136--144, "Bonus damage types": seven slots of the array behind
  \<^verbatim>\<open>elementalDamagePerShot.modded\<close> are overwritten in place. Reading index 0, 1 or 2 of
  the modded damage array, or writing index 0..6 of the elemental one, raises
  \<^verbatim>\<open>IndexError\<close> out of range. The local \<^verbatim>\<open>total_base_damage\<close> is returned with the
  object, for line 146.
\<close>

definition apply_bonus_damage_types :: "FireMode \<Rightarrow> error + real \<times> FireMode" where
  "apply_bonus_damage_types self =
     (let modded_damage = arrays self (DamageParameter.modded (FireMode.damagePerShot self));
          total_base_damage = sum_list modded_damage;
          a_elem = DamageParameter.modded (elementalDamagePerShot self)
      in if length modded_damage < 3 \<or> length (arrays self a_elem) < 7 then Inl IndexError
         else
           Inr (total_base_damage,
                self\<lparr>arrays := (arrays self)(a_elem :=
                  (arrays self a_elem)
                    [0 := modded_damage ! 0 * physical_bucket.base (impact_m self),
                     1 := modded_damage ! 1 * physical_bucket.base (puncture_m self),
                     2 := modded_damage ! 2 * physical_bucket.base (slash_m self),
                     3 := total_base_damage * element_bucket.base (heat_m self),
                     4 := total_base_damage * element_bucket.base (cold_m self),
                     5 := total_base_damage * element_bucket.base (electric_m self),
                     6 := total_base_damage * element_bucket.base (toxin_m self)])\<rparr>))"

text \<open>Lines 146--148: the quantum and the two quantized arrays.\<close>

definition apply_quantization :: "real \<Rightarrow> FireMode \<Rightarrow> FireMode" where
  "apply_quantization total_base_damage self =
     (let quanta =
            (total_base_damage +
             sum_list (arrays self (DamageParameter.modded (elementalDamagePerShot self)))) / 16;
          (q_damage, s1) =
            new_quantized self
              (quantize quanta
                 (arrays self (DamageParameter.modded (FireMode.damagePerShot self))));
          self1 = s1\<lparr>FireMode.damagePerShot :=
                     (FireMode.damagePerShot s1)\<lparr>quantized := q_damage\<rparr>\<rparr>;
          (q_elem, s2) =
            new_quantized self1
              (quantize quanta
                 (arrays self1 (DamageParameter.modded (elementalDamagePerShot self1))))
      in s2\<lparr>elementalDamagePerShot :=
              (elementalDamagePerShot s2)\<lparr>quantized := q_elem\<rparr>\<rparr>)"

text \<open>Lines 153--169: critical chance, critical multiplier and status chance.\<close>

definition apply_critical_and_status :: "FireMode \<Rightarrow> FireMode" where
  "apply_critical_and_status self =
     (let cc = criticalChance_m self;
          cm = criticalMultiplier_m self;
          pc = procChance_m self
      in self\<lparr>FireMode.criticalChance :=
                (FireMode.criticalChance self)\<lparr>Parameter.modded :=
                   ((Parameter.base (FireMode.criticalChance self) +
                       critical_chance_bucket.additive_base cc) *
                      (1 + critical_chance_bucket.base cc) +
                    critical_chance_bucket.additive_final cc) *
                   deadly_munitions cc + covenant cc\<rparr>,
              FireMode.criticalMultiplier :=
                (FireMode.criticalMultiplier self)\<lparr>Parameter.modded :=
                   ((Parameter.base (FireMode.criticalMultiplier self) +
                       critical_multiplier_bucket.additive_base cm) *
                      (1 + critical_multiplier_bucket.base cm) +
                    critical_multiplier_bucket.additive_final cm) *
                   critical_multiplier_bucket.final_multiplier cm\<rparr>,
              FireMode.procChance :=
                (FireMode.procChance self)\<lparr>Parameter.modded :=
                   (Parameter.base (FireMode.procChance self) +
                      proc_chance_bucket.additive_base pc) *
                   ((1 + proc_chance_bucket.base pc) +
                      proc_chance_bucket.additive_final pc) *
                   proc_chance_bucket.final_multiplier pc *
                   proc_chance_bucket.multishot_multiplier pc\<rparr>\<rparr>)"

text \<open>
  Lines 170--175: the proc distribution. The sum of two arrays of different lengths
  raises \<^verbatim>\<open>ValueError\<close> (an array of length 1 would broadcast; it cannot get past the
  index reads above).
\<close>

definition apply_proc_probabilities :: "FireMode \<Rightarrow> error + FireMode" where
  "apply_proc_probabilities self =
     (let dmg = arrays self (DamageParameter.modded (FireMode.damagePerShot self));
          elem = arrays self (DamageParameter.modded (elementalDamagePerShot self))
      in if length dmg \<noteq> length elem then Inl ValueError
         else
           let procProbs = map2 (+) dmg elem;
               tot_weight = sum_list procProbs
           in Inr (self\<lparr>procProbabilities :=
                          map (\<lambda>w. w * (if tot_weight > 0 then 1 / tot_weight else 0))
                            procProbs,
                        procCumulativeProbabilities := Cumulative_int 0\<rparr>))"

text \<open>Lines 178--185, "Other"; the divisions of lines 180 and 182 raise on a zero divisor.\<close>

definition apply_other :: "FireMode \<Rightarrow> error + FireMode" where
  "apply_other self =
     (let self1 =
            self\<lparr>FireMode.multishot :=
                   (FireMode.multishot self)\<lparr>Parameter.modded :=
                      Parameter.base (FireMode.multishot self) *
                      (1 + base_bucket.base (multishot_m self))\<rparr>,
                 fireRate :=
                   (fireRate self)\<lparr>Parameter.modded :=
                      Parameter.base (fireRate self) *
                      (1 + fire_rate_bucket.base (fireRate_m self))\<rparr>\<rparr>
      in if 1 + base_bucket.base (reloadTime_m self1) = 0 then Inl ZeroDivisionError
         else
           let self2 =
                 self1\<lparr>reloadTime :=
                         (reloadTime self1)\<lparr>Parameter.modded :=
                            Parameter.base (reloadTime self1) /
                            (1 + base_bucket.base (reloadTime_m self1))\<rparr>,
                       magazineSize :=
                         (magazineSize self1)\<lparr>ModifyParameter.modded :=
                            ModifyParameter.base (magazineSize self1) *
                            (1 + base_bucket.base (magazineSize_m self1))\<rparr>\<rparr>
           in if 1 + fire_rate_bucket.base (fireRate_m self2) = 0 then Inl ZeroDivisionError
              else
                Inr (self2\<lparr>chargeTime :=
                            (chargeTime self2)\<lparr>Parameter.modded :=
                               Parameter.base (chargeTime self2) /
                               (1 + fire_rate_bucket.base (fireRate_m self2))\<rparr>,
                          magazineSize :=
                            (magazineSize self2)\<lparr>ModifyParameter.modded :=
                               ModifyParameter.base (magazineSize self2) *
                               (1 + base_bucket.base (magazineSize_m self2))\<rparr>,
                          FireMode.embedDelay :=
                            (FireMode.embedDelay self2)\<lparr>Parameter.modded :=
                               Parameter.base (FireMode.embedDelay self2)\<rparr>,
                          ammoCost :=
                            (ammoCost self2)\<lparr>Parameter.modded :=
                               Parameter.base (ammoCost self2) *
                               max 0 (1 - ammo_cost_bucket.base (ammoCost_m self2)) *
                               max 0 (1 - energized_munitions (ammoCost_m self2))\<rparr>\<rparr>))"

text \<open>The method runs the blocks in order; the first raise ends it.\<close>

definition apply_mods :: "FireMode \<Rightarrow> error + FireMode" where
  "apply_mods self =
     (case apply_bonus_damage_types (apply_damage self) of
        Inl e \<Rightarrow> Inl e
      | Inr (total_base_damage, self2) \<Rightarrow>
          (case apply_proc_probabilities
                  (apply_critical_and_status (apply_quantization total_base_damage self2)) of
             Inl e \<Rightarrow> Inl e
           | Inr self6 \<Rightarrow> apply_other self6))"

section \<open>Construction of a fire mode\<close>

text \<open>
  \<^verbatim>\<open>FireMode.__init__\<close> on the record \<^verbatim>\<open>weapon.data["fireModes"][name]\<close>. The effects are
  built first, from the object as it is at line 45; \<open>FireMode_attributes\<close> is the
  object after line 98, before \<^verbatim>\<open>load_mods\<close> and \<^verbatim>\<open>apply_mods\<close> run. The damage array of
  the record gets address 0 and the array of 20 zeros of the elemental parameter
  address 1.
\<close>

definition FireMode_attributes ::
  "string \<Rightarrow> FireModeData \<Rightarrow> FireModeEffect list \<Rightarrow> FireMode" where
  "FireMode_attributes nm data effects =
     (let cm0 = Parameter_init (dict_get (FireModeData.criticalMultiplier data) 1)
      in
      \<lparr>FireMode.name = nm,
       fire_mode_effects = effects,
       attack_index = 1,
       FireMode.trigger = dict_get (FireModeData.trigger data) ''AUTO'',
       FireMode.damagePerShot = DamageParameter_init 0,
       elementalDamagePerShot = DamageParameter_init 1,
       FireMode.criticalChance =
         Parameter_init (dict_get (FireModeData.criticalChance data) 0),
       FireMode.criticalMultiplier =
         cm0\<lparr>Parameter.base :=
               of_int (py_round (Parameter.base cm0 * (128 - 1 / 32))) /
               (128 - 1 / 32)\<rparr>,
       FireMode.procChance =
         Parameter_init (dict_get (FireModeData.procChance data) 0),
       procProbabilities = replicate 20 0,
       procCumulativeProbabilities = Cumulative_array (replicate 20 0),
       magazineSize =
         ModifyParameter_init (dict_get (FireModeData.magazineSize data) 100),
       fireRate = Parameter_init (dict_get (FireModeData.fireRate data) 5),
       reloadTime = Parameter_init (dict_get (FireModeData.reloadTime data) 1),
       FireMode.multishot =
         Parameter_init (dict_get (FireModeData.multishot data) 1),
       ammoCost = Parameter_init (dict_get (FireModeData.ammoCost data) 1),
       chargeTime = Parameter_init (dict_get (FireModeData.chargeTime data) 0),
       FireMode.embedDelay =
         Parameter_init (dict_get (FireModeData.embedDelay data) 0),
       FireMode.forcedProc = dict_get (FireModeData.forcedProc data) [],
       radial = False,
       damagePerShot_m =
         \<lparr>damage_bucket.base = 0, condition_overload_base = 0,
          condition_overload_multiplier = 0, direct = 0,
          damage_bucket.final_multiplier = 1,
          damage_bucket.multishot_multiplier = 1\<rparr>,
       bonusDamagePerShot_m = \<lparr>bonus_damage_bucket.additive_base = 0\<rparr>,
       criticalChance_m =
         \<lparr>critical_chance_bucket.base = 0,
          critical_chance_bucket.additive_base = 0,
          critical_chance_bucket.additive_final = 0,
          covenant = 0, deadly_munitions = 1\<rparr>,
       criticalMultiplier_m =
         \<lparr>critical_multiplier_bucket.base = 0,
          critical_multiplier_bucket.additive_base = 0,
          critical_multiplier_bucket.additive_final = 0,
          critical_multiplier_bucket.final_multiplier = 1\<rparr>,
       procChance_m =
         \<lparr>proc_chance_bucket.base = 0,
          proc_chance_bucket.additive_base = 0,
          proc_chance_bucket.additive_final = 0,
          proc_chance_bucket.final_multiplier = 1,
          proc_chance_bucket.multishot_multiplier = 1\<rparr>,
       magazineSize_m = \<lparr>base_bucket.base = 0\<rparr>,
       fireRate_m =
         \<lparr>fire_rate_bucket.base = 0, fire_rate_bucket.final_multiplier = 1\<rparr>,
       reloadTime_m = \<lparr>base_bucket.base = 0\<rparr>,
       multishot_m = \<lparr>base_bucket.base = 0\<rparr>,
       heat_m = \<lparr>element_bucket.base = 0, uncombinable = 0\<rparr>,
       cold_m = \<lparr>element_bucket.base = 0, uncombinable = 0\<rparr>,
       electric_m = \<lparr>element_bucket.base = 0, uncombinable = 0\<rparr>,
       toxin_m = \<lparr>element_bucket.base = 0, uncombinable = 0\<rparr>,
       blast_m = \<lparr>base_bucket.base = 0\<rparr>,
       radiation_m = \<lparr>base_bucket.base = 0\<rparr>,
       gas_m = \<lparr>base_bucket.base = 0\<rparr>,
       magnetic_m = \<lparr>base_bucket.base = 0\<rparr>,
       viral_m = \<lparr>base_bucket.base = 0\<rparr>,
       corrosive_m = \<lparr>base_bucket.base = 0\<rparr>,
       impact_m = \<lparr>physical_bucket.base = 0, stance = 0\<rparr>,
       puncture_m = \<lparr>physical_bucket.base = 0, stance = 0\<rparr>,
       slash_m = \<lparr>physical_bucket.base = 0, stance = 0\<rparr>,
       statusDuration_m = \<lparr>base_bucket.base = 0\<rparr>,
       factionDamage_m = \<lparr>base_bucket.base = 0\<rparr>,
       ammoCost_m = \<lparr>ammo_cost_bucket.base = 0, energized_munitions = 0\<rparr>,
       refresh = False,
       arrays =
         (\<lambda>_. [])
           (0 := dict_get (FireModeData.damagePerShot data) (replicate 20 0),
            1 := replicate 20 0)\<rparr>)"

definition FireMode_init :: "real \<Rightarrow> string \<Rightarrow> FireModeData \<Rightarrow> error + FireMode" where
  "FireMode_init MAX_TIME_OFFSET nm data =
     (case build_effects MAX_TIME_OFFSET None (secondaryEffects data) of
        Inl e \<Rightarrow> Inl e
      | Inr effects \<Rightarrow>
          (case apply_mods (load_mods (FireMode_attributes nm data effects)) of
             Inl e \<Rightarrow> Inl e
           | Inr self \<Rightarrow> Inr (self\<lparr>refresh := True\<rparr>)))"

section \<open>The multishot roll and the trigger\<close>

text \<open>
  \<^verbatim>\<open>get_tier\<close>, with the value that \<^verbatim>\<open>random()\<close> returns as its first argument:
  \<^verbatim>\<open>int(random() < (chance % 1)) + int(chance)\<close>.
\<close>

definition get_tier :: "real \<Rightarrow> real \<Rightarrow> int" where
  "get_tier rnd chance = (if rnd < py_mod1 chance then 1 else 0) + py_int chance"

text \<open>
  An event names the object it was created for (a fire mode by its name, an effect
  by its value) and the bound method to call: \<^verbatim>\<open>enemy.pellet_hit\<close> of a target, or
  \<^verbatim>\<open>pull_trigger\<close> of a fire mode.
\<close>

datatype source = Fire_mode string | Effect FireModeEffect

datatype callback = Pellet_hit string | Pull_trigger string

record EventTrigger =
  fire_mode :: source
  func :: callback
  time :: real

text \<open>
  The simulation driver is not part of the source file. Its state is the simulated
  time, the counter behind \<^verbatim>\<open>get_call_index\<close> and the entries put on the event queue,
  kept in the order of the calls of \<^verbatim>\<open>put\<close>.
\<close>

record Simulacrum =
  time :: real
  call_index :: nat
  event_queue :: "(real \<times> nat \<times> EventTrigger) list"

text \<open>
  Modelled from the spec: \<^verbatim>\<open>Simulacrum.get_call_index\<close> is missing from the source; it
  "returns the next monotonic sequence number, read-and-increment".
\<close>

definition get_call_index :: "Simulacrum \<Rightarrow> nat \<times> Simulacrum" where
  "get_call_index sim = (call_index sim, sim\<lparr>call_index := Suc (call_index sim)\<rparr>)"

text \<open>\<^verbatim>\<open>simulation.event_queue.put((t, simulation.get_call_index(), EventTrigger(src, f, t)))\<close>\<close>

definition put_event :: "real \<Rightarrow> source \<Rightarrow> callback \<Rightarrow> Simulacrum \<Rightarrow> Simulacrum" where
  "put_event t src f sim =
     (let (i, sim') = get_call_index sim
      in sim'\<lparr>event_queue :=
               event_queue sim' @
               [(t, i, \<lparr>EventTrigger.fire_mode = src, func = f, EventTrigger.time = t\<rparr>)]\<rparr>)"

text \<open>The inner loop of lines 204--206 over the effects, and the body of the outer loop.\<close>

fun put_effects :: "real \<Rightarrow> string \<Rightarrow> FireModeEffect list \<Rightarrow> Simulacrum \<Rightarrow> Simulacrum" where
  "put_effects fm_time enemy [] sim = sim"
| "put_effects fm_time enemy (fme # fmes) sim =
     put_effects fm_time enemy fmes
       (put_event (FireModeEffect.embedDelay fme + fm_time) (Effect fme) (Pellet_hit enemy) sim)"

definition fire_cluster :: "FireMode \<Rightarrow> string \<Rightarrow> Simulacrum \<Rightarrow> Simulacrum" where
  "fire_cluster self enemy sim =
     (let fm_time = Simulacrum.time sim + Parameter.modded (FireMode.embedDelay self)
      in put_effects fm_time enemy (fire_mode_effects self)
           (put_event fm_time (Fire_mode (FireMode.name self)) (Pellet_hit enemy) sim))"

text \<open>\<^verbatim>\<open>for _ in range(multishot)\<close>: no iteration for a count of 0 or less.\<close>

fun fire_clusters :: "nat \<Rightarrow> FireMode \<Rightarrow> string \<Rightarrow> Simulacrum \<Rightarrow> Simulacrum" where
  "fire_clusters 0 self enemy sim = sim"
| "fire_clusters (Suc n) self enemy sim =
     fire_clusters n self enemy (fire_cluster self enemy sim)"

text \<open>
  \<^verbatim>\<open>FireMode.pull_trigger(fire_mode, enemy)\<close>; \<open>rnd\<close> is the value \<^verbatim>\<open>random()\<close> returns in
  this call. \<^verbatim>\<open>1/self.fireRate.modded\<close> raises \<^verbatim>\<open>ZeroDivisionError\<close> on 0.
\<close>

definition pull_trigger ::
  "real \<Rightarrow> FireMode \<Rightarrow> source \<Rightarrow> string \<Rightarrow> Simulacrum \<Rightarrow> error + FireMode \<times> Simulacrum" where
  "pull_trigger rnd self fm enemy sim =
     (let multishot_roll = get_tier rnd (Parameter.modded (FireMode.multishot self));
          self1 =
            self\<lparr>magazineSize :=
                   (magazineSize self)\<lparr>current :=
                      current (magazineSize self) - Parameter.modded (ammoCost self)\<rparr>\<rparr>;
          (self2, multishot) =
            (if FireMode.trigger self1 = ''HELD''
             then (self1\<lparr>damagePerShot_m :=
                           (damagePerShot_m self1)\<lparr>damage_bucket.multishot_multiplier :=
                              of_int multishot_roll\<rparr>,
                         procChance_m :=
                           (procChance_m self1)\<lparr>proc_chance_bucket.multishot_multiplier :=
                              of_int multishot_roll\<rparr>\<rparr>, 1)
             else (self1, multishot_roll));
          sim1 = fire_clusters (nat multishot) self2 enemy sim
      in if current (magazineSize self2) > 0
         then
           if Parameter.modded (fireRate self2) = 0 then Inl ZeroDivisionError
           else
             let next_event =
                   Simulacrum.time sim1 + 1 / Parameter.modded (fireRate self2) +
                   Parameter.modded (chargeTime self2)
             in Inr (self2,
                     put_event next_event fm (Pull_trigger (FireMode.name self2)) sim1)
         else
           let self3 =
                 self2\<lparr>magazineSize :=
                         (magazineSize self2)\<lparr>current :=
                            ModifyParameter.modded (magazineSize self2)\<rparr>\<rparr>
           in if Parameter.modded (fireRate self3) = 0 then Inl ZeroDivisionError
              else
                let next_event =
                      Simulacrum.time sim1 +
                      max (Parameter.modded (reloadTime self3))
                          (1 / Parameter.modded (fireRate self3)) +
                      Parameter.modded (chargeTime self3)
                in Inr (self3,
                        put_event next_event fm (Pull_trigger (FireMode.name self3))
                          sim1))"

section \<open>Observations on a fire mode\<close>

text \<open>
  The arrays behind the references of the two damage parameters, the quantized arrays
  (\<open>None\<close> for the array of \<^verbatim>\<open>nan\<close>), and the groups of attributes that the statements
  below compare before and after a call: all modifier buckets, the three parameters
  of lines 153--169 and the seven of lines 178--185.
\<close>

definition base_damage :: "FireMode \<Rightarrow> real list" where
  "base_damage s = arrays s (DamageParameter.base (FireMode.damagePerShot s))"

definition modded_damage :: "FireMode \<Rightarrow> real list" where
  "modded_damage s = arrays s (DamageParameter.modded (FireMode.damagePerShot s))"

definition modded_elemental :: "FireMode \<Rightarrow> real list" where
  "modded_elemental s = arrays s (DamageParameter.modded (elementalDamagePerShot s))"

definition base_elemental :: "FireMode \<Rightarrow> real list" where
  "base_elemental s = arrays s (DamageParameter.base (elementalDamagePerShot s))"

definition deref_quantized :: "FireMode \<Rightarrow> DamageParameter \<Rightarrow> real list option" where
  "deref_quantized s p = (case quantized p of Array a \<Rightarrow> Some (arrays s a) | NaNs \<Rightarrow> None)"

definition quantized_damage :: "FireMode \<Rightarrow> real list option" where
  "quantized_damage s = deref_quantized s (FireMode.damagePerShot s)"

definition quantized_elemental :: "FireMode \<Rightarrow> real list option" where
  "quantized_elemental s = deref_quantized s (elementalDamagePerShot s)"

definition mods_of where
  "mods_of s =
     (damagePerShot_m s, bonusDamagePerShot_m s, criticalChance_m s, criticalMultiplier_m s,
      procChance_m s, magazineSize_m s, fireRate_m s, reloadTime_m s, multishot_m s,
      heat_m s, cold_m s, electric_m s, toxin_m s, blast_m s, radiation_m s, gas_m s,
      magnetic_m s, viral_m s, corrosive_m s, impact_m s, puncture_m s, slash_m s,
      statusDuration_m s, factionDamage_m s, ammoCost_m s)"

definition crit_params where
  "crit_params s = (FireMode.criticalChance s, FireMode.criticalMultiplier s, FireMode.procChance s)"

definition other_params where
  "other_params s =
     (magazineSize s, fireRate s, reloadTime s, FireMode.multishot s, ammoCost s,
      chargeTime s, FireMode.embedDelay s)"

text \<open>
  The states on which \<^verbatim>\<open>apply_mods\<close> raises nothing (\<open>apply_mods_returns\<close>), and the quantum
  of line 146 for a given \<^verbatim>\<open>total_base_damage\<close>.
\<close>

definition apply_mods_pre :: "FireMode \<Rightarrow> bool" where
  "apply_mods_pre self \<longleftrightarrow>
     3 \<le> length (base_damage self) \<and>
     7 \<le> length (modded_elemental self) \<and>
     length (base_damage self) = length (modded_elemental self) \<and>
     1 + base_bucket.base (reloadTime_m self) \<noteq> 0 \<and>
     1 + fire_rate_bucket.base (fireRate_m self) \<noteq> 0"

definition quanta_of :: "real \<Rightarrow> FireMode \<Rightarrow> real" where
  "quanta_of t s = (t + sum_list (modded_elemental s)) / 16"

text \<open>
  The entries of the event queue without their sequence numbers, an entry for a given
  time, origin and method, and the entries one iteration of the loop of lines 200--206
  puts on the queue at simulated time \<open>now\<close>: the primary hit, then one hit per effect.
\<close>

definition scheduled :: "Simulacrum \<Rightarrow> (real \<times> EventTrigger) list" where
  "scheduled sim = map (\<lambda>(t, i, e). (t, e)) (event_queue sim)"

definition event :: "real \<Rightarrow> source \<Rightarrow> callback \<Rightarrow> real \<times> EventTrigger" where
  "event t src f = (t, \<lparr>EventTrigger.fire_mode = src, func = f, EventTrigger.time = t\<rparr>)"

definition cluster_events :: "FireMode \<Rightarrow> string \<Rightarrow> real \<Rightarrow> (real \<times> EventTrigger) list" where
  "cluster_events self enemy now =
     event (now + Parameter.modded (FireMode.embedDelay self))
       (Fire_mode (FireMode.name self)) (Pellet_hit enemy) #
     map (\<lambda>fme. event (FireModeEffect.embedDelay fme +
                         (now + Parameter.modded (FireMode.embedDelay self)))
                  (Effect fme) (Pellet_hit enemy))
       (fire_mode_effects self)"

section \<open>Example inputs\<close>

text \<open>
  Data records used to run the definitions at concrete inputs: the empty record
  \<^verbatim>\<open>{}\<close>, for which every \<^verbatim>\<open>data.get\<close> takes its default, and a semi-automatic weapon
  with a magazine of 2, an ammo cost of 1 and a multishot of 2.
\<close>

definition empty_data :: FireModeData where
  "empty_data =
     \<lparr>FireModeData.trigger = None, FireModeData.damagePerShot = None,
      FireModeData.criticalChance = None, FireModeData.criticalMultiplier = None,
      FireModeData.procChance = None, FireModeData.magazineSize = None,
      FireModeData.fireRate = None, FireModeData.reloadTime = None,
      FireModeData.multishot = None, FireModeData.ammoCost = None,
      FireModeData.chargeTime = None, FireModeData.embedDelay = None,
      FireModeData.forcedProc = None, secondaryEffects = []\<rparr>"

definition weapon_Y :: FireModeData where
  "weapon_Y =
     empty_data
       \<lparr>FireModeData.damagePerShot :=
          Some [10, 1, 0, 0, 0, 0, 0, 0, 0, 0, 0, 0, 0, 0, 0, 0, 0, 0, 0, 0],
        FireModeData.criticalMultiplier := Some 2,
        FireModeData.magazineSize := Some 2,
        FireModeData.multishot := Some 2,
        FireModeData.ammoCost := Some 1\<rparr>"

text \<open>
  A weapon with innate heat damage, and the fire modes of these records as the
  constructor leaves them before its call of \<^verbatim>\<open>apply_mods\<close>; the third one carries a
  heat modifier of 1.
\<close>

definition weapon_Z :: FireModeData where
  "weapon_Z =
     empty_data
       \<lparr>FireModeData.damagePerShot :=
          Some [10, 0, 0, 5, 0, 0, 0, 0, 0, 0, 0, 0, 0, 0, 0, 0, 0, 0, 0, 0]\<rparr>"

definition fire_mode_Y :: FireMode where
  "fire_mode_Y = load_mods (FireMode_attributes ''Y'' weapon_Y [])"

definition fire_mode_Z :: FireMode where
  "fire_mode_Z =
     (load_mods (FireMode_attributes ''Z'' weapon_Z []))
       \<lparr>heat_m := \<lparr>element_bucket.base = 1, uncombinable = 0\<rparr>\<rparr>"

definition fire_mode_empty :: FireMode where
  "fire_mode_empty = load_mods (FireMode_attributes ''E'' empty_data [])"

text \<open>
  The empty effect record, a charge weapon with a multishot of 1.5 and one secondary
  effect that lands half a second after the primary hit, and a simulation at time 0
  with an empty queue.
\<close>

definition empty_effect :: EffectData where
  "empty_effect =
     \<lparr>EffectData.damagePerShot = None, EffectData.criticalChance = None,
      EffectData.criticalMultiplier = None, EffectData.procChance = None,
      EffectData.multishot = None, EffectData.embedDelay = None,
      EffectData.forcedProc = None\<rparr>"

definition weapon_X :: FireModeData where
  "weapon_X =
     empty_data\<lparr>FireModeData.trigger := Some ''HELD'', FireModeData.multishot := Some (3 / 2)\<rparr>"

definition explosion :: FireModeEffect where
  "explosion =
     \<lparr>FireModeEffect.fire_mode = ''X'', FireModeEffect.name = ''explosion'',
      next_event_timestamp = 0,
      FireModeEffect.damagePerShot = Parent_parameter,
      FireModeEffect.criticalChance = Parent_parameter,
      FireModeEffect.criticalMultiplier = Parent_parameter,
      FireModeEffect.procChance = Parent_parameter,
      FireModeEffect.multishot = 1,
      FireModeEffect.embedDelay = 1 / 2,
      FireModeEffect.forcedProc = []\<rparr>"

definition fire_mode_X :: FireMode where
  "fire_mode_X = load_mods (FireMode_attributes ''X'' weapon_X [explosion])"

definition sim0 :: Simulacrum where
  "sim0 = \<lparr>Simulacrum.time = 0, call_index = 0, event_queue = []\<rparr>"

section \<open>Allocation and the blocks of apply\_mods\<close>

lemma new_array_address_gt:
  "a \<in> set (addresses (FireMode.damagePerShot s) @ addresses (elementalDamagePerShot s))
   \<Longrightarrow> a < new_array_address s"
  unfolding new_array_address_def
  by (simp add: less_Suc_eq_le del: set_append)

lemma fresh_neq:
  "new_array_address s \<noteq> DamageParameter.base (FireMode.damagePerShot s)"
  "new_array_address s \<noteq> DamageParameter.modded (FireMode.damagePerShot s)"
  "new_array_address s \<noteq> DamageParameter.base (elementalDamagePerShot s)"
  "new_array_address s \<noteq> DamageParameter.modded (elementalDamagePerShot s)"
  "quantized (FireMode.damagePerShot s) = Array a \<Longrightarrow> new_array_address s \<noteq> a"
  "quantized (elementalDamagePerShot s) = Array a \<Longrightarrow> new_array_address s \<noteq> a"
  using new_array_address_gt[of "DamageParameter.base (FireMode.damagePerShot s)" s]
        new_array_address_gt[of "DamageParameter.modded (FireMode.damagePerShot s)" s]
        new_array_address_gt[of "DamageParameter.base (elementalDamagePerShot s)" s]
        new_array_address_gt[of "DamageParameter.modded (elementalDamagePerShot s)" s]
        new_array_address_gt[of a s]
  by (auto simp: addresses_def)

lemma new_quantized_effect:
  assumes "new_quantized s q = (r, s')"
  shows "FireMode.damagePerShot s' = FireMode.damagePerShot s"
    "elementalDamagePerShot s' = elementalDamagePerShot s"
    "deref_quantized s' \<lparr>DamageParameter.base = b, modded = m, quantized = r\<rparr> = q"
    "a \<in> set (addresses (FireMode.damagePerShot s) @ addresses (elementalDamagePerShot s)) \<Longrightarrow> arrays s' a = arrays s a"
    "mods_of s' = mods_of s" "crit_params s' = crit_params s" "other_params s' = other_params s"
  using assms new_array_address_gt[of a s]
  by (auto simp: new_quantized_def new_array_def Let_def deref_quantized_def mods_of_def
      crit_params_def other_params_def split: option.splits)

lemma apply_quantization_effect:
  fixes t s
  defines "r \<equiv> apply_quantization t s"
  shows "DamageParameter.base (FireMode.damagePerShot r) = DamageParameter.base (FireMode.damagePerShot s)"
    and "DamageParameter.modded (FireMode.damagePerShot r) = DamageParameter.modded (FireMode.damagePerShot s)"
    and "DamageParameter.base (elementalDamagePerShot r) = DamageParameter.base (elementalDamagePerShot s)"
    and "DamageParameter.modded (elementalDamagePerShot r) = DamageParameter.modded (elementalDamagePerShot s)"
    and "base_damage r = base_damage s"
    and "modded_damage r = modded_damage s"
    and "modded_elemental r = modded_elemental s"
    and "quantized_damage r = quantize (quanta_of t s) (modded_damage s)"
    and "quantized_elemental r = quantize (quanta_of t s) (modded_elemental s)"
    and "mods_of r = mods_of s" and "crit_params r = crit_params s"
    and "other_params r = other_params s"
proof -
  define quanta where "quanta = (t + sum_list (arrays s (DamageParameter.modded (elementalDamagePerShot s)))) / 16"
  obtain q1 s1 where n1: "new_quantized s (quantize quanta (arrays s (DamageParameter.modded (FireMode.damagePerShot s)))) = (q1, s1)"
    by (rule prod.exhaust)
  define self1 where "self1 = s1\<lparr>FireMode.damagePerShot := (FireMode.damagePerShot s1)\<lparr>quantized := q1\<rparr>\<rparr>"
  obtain q2 s2 where n2: "new_quantized self1 (quantize quanta (arrays self1 (DamageParameter.modded (elementalDamagePerShot self1)))) = (q2, s2)"
    by (rule prod.exhaust)
  have r: "r = s2\<lparr>elementalDamagePerShot := (elementalDamagePerShot s2)\<lparr>quantized := q2\<rparr>\<rparr>"
    unfolding r_def apply_quantization_def Let_def quanta_def[symmetric] n1 prod.case
      self1_def[symmetric] n2 ..
  have qq: "quanta = quanta_of t s"
    by (simp add: quanta_def quanta_of_def modded_elemental_def)
  note e1 = new_quantized_effect[OF n1]
  note e2 = new_quantized_effect[OF n2]
  have d1: "FireMode.damagePerShot self1 = (FireMode.damagePerShot s)\<lparr>quantized := q1\<rparr>"
    and l1: "elementalDamagePerShot self1 = elementalDamagePerShot s"
    and a1: "arrays self1 = arrays s1"
    by (simp_all add: self1_def e1(1,2))
  show "DamageParameter.base (FireMode.damagePerShot r) = DamageParameter.base (FireMode.damagePerShot s)"
    and "DamageParameter.modded (FireMode.damagePerShot r) = DamageParameter.modded (FireMode.damagePerShot s)"
    and "DamageParameter.base (elementalDamagePerShot r) = DamageParameter.base (elementalDamagePerShot s)"
    and "DamageParameter.modded (elementalDamagePerShot r) = DamageParameter.modded (elementalDamagePerShot s)"
    by (simp_all add: r e2(1,2) d1 l1)
  have keep: "arrays s2 a = arrays s a"
    if "a \<in> {DamageParameter.base (FireMode.damagePerShot s), DamageParameter.modded (FireMode.damagePerShot s),
               DamageParameter.base (elementalDamagePerShot s), DamageParameter.modded (elementalDamagePerShot s)}" for a
  proof -
    have "arrays s2 a = arrays self1 a"
      using that by (intro e2(4)) (auto simp: addresses_def d1 l1)
    also have "\<dots> = arrays s a"
      unfolding a1 using that by (intro e1(4)) (auto simp: addresses_def)
    finally show ?thesis .
  qed
  show "base_damage r = base_damage s" "modded_damage r = modded_damage s"
    "modded_elemental r = modded_elemental s"
    by (simp_all add: base_damage_def modded_damage_def modded_elemental_def r e2(1,2) d1 l1 keep)
  show "quantized_damage r = quantize (quanta_of t s) (modded_damage s)"
  proof (cases q1)
    case (Array a)
    have "arrays s2 a = arrays self1 a"
      by (intro e2(4)) (simp add: addresses_def d1 Array)
    moreover have "deref_quantized s1 \<lparr>DamageParameter.base = 0, modded = 0, quantized = q1\<rparr> = quantize quanta (modded_damage s)"
      unfolding modded_damage_def by (rule e1(3))
    ultimately show ?thesis
      by (simp add: quantized_damage_def deref_quantized_def r e2(1,2) d1 Array a1 qq)
  next
    case NaNs
    have "deref_quantized s1 \<lparr>DamageParameter.base = 0, modded = 0, quantized = q1\<rparr> = quantize quanta (modded_damage s)"
      unfolding modded_damage_def by (rule e1(3))
    then show ?thesis
      by (simp add: quantized_damage_def deref_quantized_def r e2(1,2) d1 NaNs qq)
  qed
  have me: "modded_elemental self1 = modded_elemental s"
    unfolding modded_elemental_def l1 a1 by (intro e1(4)) (simp add: addresses_def)
  have "deref_quantized s2 \<lparr>DamageParameter.base = 0, modded = 0, quantized = q2\<rparr> = quantize quanta (modded_elemental self1)"
    unfolding modded_elemental_def by (rule e2(3))
  then show "quantized_elemental r = quantize (quanta_of t s) (modded_elemental s)"
    by (cases q2) (simp_all add: quantized_elemental_def deref_quantized_def r me qq)
  have "mods_of self1 = mods_of s1" "crit_params self1 = crit_params s1"
    "other_params self1 = other_params s1"
    by (simp_all add: self1_def mods_of_def crit_params_def other_params_def)
  moreover have "mods_of r = mods_of s2" "crit_params r = crit_params s2"
    "other_params r = other_params s2"
    by (simp_all add: r mods_of_def crit_params_def other_params_def)
  ultimately show "mods_of r = mods_of s" and "crit_params r = crit_params s"
    and "other_params r = other_params s"
    by (simp_all add: e1(5-7) e2(5-7))
qed

lemma map2_map_map_same:
  "map2 f xs (map g (map h xs)) = map (\<lambda>x. f x (g (h x))) xs"
  by (induction xs) auto

lemma apply_damage_effect:
  fixes s
  defines "r \<equiv> apply_damage s"
  shows "DamageParameter.base (FireMode.damagePerShot r) = DamageParameter.base (FireMode.damagePerShot s)"
    and "elementalDamagePerShot r = elementalDamagePerShot s"
    and "DamageParameter.modded (FireMode.damagePerShot r) \<noteq> DamageParameter.modded (elementalDamagePerShot r)"
    and "base_damage r = base_damage s"
    and "modded_elemental r = modded_elemental s"
    and "mods_of r = mods_of s" and "crit_params r = crit_params s"
    and "other_params r = other_params s"
  using fresh_neq(1-4)[of s]
  by (simp_all add: r_def apply_damage_def Let_def new_array_def base_damage_def
      modded_elemental_def mods_of_def crit_params_def other_params_def)

lemma apply_damage_modded:
  "modded_damage (apply_damage s) =
     map (\<lambda>b. (b + b / max (sum_list (base_damage s)) (1 / 100) *
                   bonus_damage_bucket.additive_base (bonusDamagePerShot_m s)) *
              (1 + damage_bucket.base (damagePerShot_m s)) *
              damage_bucket.multishot_multiplier (damagePerShot_m s) *
              damage_bucket.final_multiplier (damagePerShot_m s))
       (base_damage s)"
proof -
  have "modded_damage (apply_damage s) =
     map2 (\<lambda>b bonus. (b + bonus) * (1 + damage_bucket.base (damagePerShot_m s)) *
                       damage_bucket.multishot_multiplier (damagePerShot_m s) *
                       damage_bucket.final_multiplier (damagePerShot_m s))
       (base_damage s)
       (map (\<lambda>w. w * bonus_damage_bucket.additive_base (bonusDamagePerShot_m s))
          (map (\<lambda>b. b / max (sum_list (base_damage s)) (1 / 100)) (base_damage s)))"
    by (simp add: apply_damage_def Let_def new_array_def modded_damage_def base_damage_def)
  then show ?thesis
    by (simp only: map2_map_map_same)
qed

lemma accessors_cong:
  assumes "arrays r = arrays s" "FireMode.damagePerShot r = FireMode.damagePerShot s"
    "elementalDamagePerShot r = elementalDamagePerShot s"
  shows "base_damage r = base_damage s" "modded_damage r = modded_damage s"
    "modded_elemental r = modded_elemental s" "base_elemental r = base_elemental s"
    "quantized_damage r = quantized_damage s" "quantized_elemental r = quantized_elemental s"
  by (simp_all add: assms base_damage_def modded_damage_def modded_elemental_def
      base_elemental_def quantized_damage_def quantized_elemental_def deref_quantized_def
      split: quantized_ref.splits)

lemma apply_bonus_damage_types_effect:
  assumes "apply_bonus_damage_types s = Inr (t, r)"
  shows "3 \<le> length (modded_damage s)" and "7 \<le> length (modded_elemental s)"
    and "t = sum_list (modded_damage s)"
    and "FireMode.damagePerShot r = FireMode.damagePerShot s"
    and "elementalDamagePerShot r = elementalDamagePerShot s"
    and "modded_elemental r =
           (modded_elemental s)
             [0 := modded_damage s ! 0 * physical_bucket.base (impact_m s),
              1 := modded_damage s ! 1 * physical_bucket.base (puncture_m s),
              2 := modded_damage s ! 2 * physical_bucket.base (slash_m s),
              3 := sum_list (modded_damage s) * element_bucket.base (heat_m s),
              4 := sum_list (modded_damage s) * element_bucket.base (cold_m s),
              5 := sum_list (modded_damage s) * element_bucket.base (electric_m s),
              6 := sum_list (modded_damage s) * element_bucket.base (toxin_m s)]"
    and "DamageParameter.modded (FireMode.damagePerShot s) \<noteq>
           DamageParameter.modded (elementalDamagePerShot s) \<Longrightarrow>
         modded_damage r = modded_damage s"
    and "mods_of r = mods_of s" and "crit_params r = crit_params s"
    and "other_params r = other_params s"
  using assms
  by (auto simp: apply_bonus_damage_types_def Let_def modded_damage_def modded_elemental_def
      mods_of_def crit_params_def other_params_def split: if_splits)

lemma apply_bonus_damage_types_returns:
  assumes "3 \<le> length (modded_damage s)" "7 \<le> length (modded_elemental s)"
  shows "\<exists>t r. apply_bonus_damage_types s = Inr (t, r)"
  using assms
  by (simp add: apply_bonus_damage_types_def Let_def modded_damage_def modded_elemental_def)

lemma apply_critical_and_status_effect:
  fixes s
  defines "r \<equiv> apply_critical_and_status s"
  shows "arrays r = arrays s" and "FireMode.damagePerShot r = FireMode.damagePerShot s"
    and "elementalDamagePerShot r = elementalDamagePerShot s"
    and "mods_of r = mods_of s" and "other_params r = other_params s"
    and "Parameter.base (FireMode.criticalChance r) = Parameter.base (FireMode.criticalChance s)"
    and "Parameter.base (FireMode.criticalMultiplier r) =
           Parameter.base (FireMode.criticalMultiplier s)"
    and "Parameter.base (FireMode.procChance r) = Parameter.base (FireMode.procChance s)"
    and "Parameter.modded (FireMode.criticalChance r) =
           ((Parameter.base (FireMode.criticalChance s) +
               critical_chance_bucket.additive_base (criticalChance_m s)) *
              (1 + critical_chance_bucket.base (criticalChance_m s)) +
            critical_chance_bucket.additive_final (criticalChance_m s)) *
           deadly_munitions (criticalChance_m s) + covenant (criticalChance_m s)"
    and "Parameter.modded (FireMode.criticalMultiplier r) =
           ((Parameter.base (FireMode.criticalMultiplier s) +
               critical_multiplier_bucket.additive_base (criticalMultiplier_m s)) *
              (1 + critical_multiplier_bucket.base (criticalMultiplier_m s)) +
            critical_multiplier_bucket.additive_final (criticalMultiplier_m s)) *
           critical_multiplier_bucket.final_multiplier (criticalMultiplier_m s)"
    and "Parameter.modded (FireMode.procChance r) =
           (Parameter.base (FireMode.procChance s) +
              proc_chance_bucket.additive_base (procChance_m s)) *
           ((1 + proc_chance_bucket.base (procChance_m s)) +
              proc_chance_bucket.additive_final (procChance_m s)) *
           proc_chance_bucket.final_multiplier (procChance_m s) *
           proc_chance_bucket.multishot_multiplier (procChance_m s)"
  by (simp_all add: r_def apply_critical_and_status_def Let_def mods_of_def other_params_def)

lemma apply_proc_probabilities_effect:
  assumes "apply_proc_probabilities s = Inr r"
  shows "length (modded_damage s) = length (modded_elemental s)"
    and "arrays r = arrays s" and "FireMode.damagePerShot r = FireMode.damagePerShot s"
    and "elementalDamagePerShot r = elementalDamagePerShot s"
    and "mods_of r = mods_of s" and "crit_params r = crit_params s"
    and "other_params r = other_params s"
    and "procProbabilities r =
           map (\<lambda>w. w * (if sum_list (map2 (+) (modded_damage s) (modded_elemental s)) > 0
                         then 1 / sum_list (map2 (+) (modded_damage s) (modded_elemental s))
                         else 0))
             (map2 (+) (modded_damage s) (modded_elemental s))"
  using assms
  by (auto simp: apply_proc_probabilities_def Let_def modded_damage_def modded_elemental_def
      mods_of_def crit_params_def other_params_def split: if_splits)

lemma apply_proc_probabilities_returns:
  assumes "length (modded_damage s) = length (modded_elemental s)"
  shows "\<exists>r. apply_proc_probabilities s = Inr r"
  using assms
  by (simp add: apply_proc_probabilities_def Let_def modded_damage_def modded_elemental_def)

lemma apply_other_effect:
  assumes "apply_other s = Inr r"
  shows "1 + base_bucket.base (reloadTime_m s) \<noteq> 0"
    and "1 + fire_rate_bucket.base (fireRate_m s) \<noteq> 0"
    and "arrays r = arrays s" and "FireMode.damagePerShot r = FireMode.damagePerShot s"
    and "elementalDamagePerShot r = elementalDamagePerShot s"
    and "mods_of r = mods_of s" and "crit_params r = crit_params s"
    and "procProbabilities r = procProbabilities s"
    and "Parameter.base (FireMode.multishot r) = Parameter.base (FireMode.multishot s)"
    and "Parameter.base (fireRate r) = Parameter.base (fireRate s)"
    and "Parameter.base (reloadTime r) = Parameter.base (reloadTime s)"
    and "ModifyParameter.base (magazineSize r) = ModifyParameter.base (magazineSize s)"
    and "current (magazineSize r) = current (magazineSize s)"
    and "Parameter.base (chargeTime r) = Parameter.base (chargeTime s)"
    and "Parameter.base (FireMode.embedDelay r) = Parameter.base (FireMode.embedDelay s)"
    and "Parameter.base (ammoCost r) = Parameter.base (ammoCost s)"
    and "Parameter.modded (FireMode.multishot r) =
           Parameter.base (FireMode.multishot s) * (1 + base_bucket.base (multishot_m s))"
    and "Parameter.modded (fireRate r) =
           Parameter.base (fireRate s) * (1 + fire_rate_bucket.base (fireRate_m s))"
    and "Parameter.modded (reloadTime r) =
           Parameter.base (reloadTime s) / (1 + base_bucket.base (reloadTime_m s))"
    and "ModifyParameter.modded (magazineSize r) =
           ModifyParameter.base (magazineSize s) * (1 + base_bucket.base (magazineSize_m s))"
    and "Parameter.modded (chargeTime r) =
           Parameter.base (chargeTime s) / (1 + fire_rate_bucket.base (fireRate_m s))"
    and "Parameter.modded (FireMode.embedDelay r) = Parameter.base (FireMode.embedDelay s)"
    and "Parameter.modded (ammoCost r) =
           Parameter.base (ammoCost s) * max 0 (1 - ammo_cost_bucket.base (ammoCost_m s)) *
           max 0 (1 - energized_munitions (ammoCost_m s))"
  using assms
  by (auto simp: apply_other_def Let_def mods_of_def crit_params_def split: if_splits)

lemma apply_other_returns:
  assumes "1 + base_bucket.base (reloadTime_m s) \<noteq> 0"
    "1 + fire_rate_bucket.base (fireRate_m s) \<noteq> 0"
  shows "\<exists>r. apply_other s = Inr r"
  using assms by (simp add: apply_other_def Let_def)

lemma apply_mods_chain:
  assumes "apply_mods self = Inr self'"
  obtains t s2 s6 where
    "apply_bonus_damage_types (apply_damage self) = Inr (t, s2)"
    "apply_proc_probabilities (apply_critical_and_status (apply_quantization t s2)) = Inr s6"
    "apply_other s6 = Inr self'"
  using assms by (auto simp: apply_mods_def split: sum.splits)

lemma apply_mods_arrays:
  assumes "apply_mods self = Inr self'"
  shows "modded_damage self' =
           map (\<lambda>b. (b + b / max (sum_list (base_damage self)) (1 / 100) *
                         bonus_damage_bucket.additive_base (bonusDamagePerShot_m self)) *
                    (1 + damage_bucket.base (damagePerShot_m self)) *
                    damage_bucket.multishot_multiplier (damagePerShot_m self) *
                    damage_bucket.final_multiplier (damagePerShot_m self))
             (base_damage self)"
    and "modded_elemental self' =
           (modded_elemental self)
             [0 := modded_damage self' ! 0 * physical_bucket.base (impact_m self),
              1 := modded_damage self' ! 1 * physical_bucket.base (puncture_m self),
              2 := modded_damage self' ! 2 * physical_bucket.base (slash_m self),
              3 := sum_list (modded_damage self') * element_bucket.base (heat_m self),
              4 := sum_list (modded_damage self') * element_bucket.base (cold_m self),
              5 := sum_list (modded_damage self') * element_bucket.base (electric_m self),
              6 := sum_list (modded_damage self') * element_bucket.base (toxin_m self)]"
    and "quantized_damage self' =
           quantize ((sum_list (modded_damage self') + sum_list (modded_elemental self')) / 16)
             (modded_damage self')"
    and "quantized_elemental self' =
           quantize ((sum_list (modded_damage self') + sum_list (modded_elemental self')) / 16)
             (modded_elemental self')"
    and "procProbabilities self' =
           map (\<lambda>w. w * (if sum_list (map2 (+) (modded_damage self') (modded_elemental self')) > 0
                         then 1 / sum_list (map2 (+) (modded_damage self') (modded_elemental self'))
                         else 0))
             (map2 (+) (modded_damage self') (modded_elemental self'))"
    and "3 \<le> length (modded_damage self')"
    and "7 \<le> length (modded_elemental self')"
    and "length (modded_damage self') = length (modded_elemental self')"
    and "length (modded_damage self') = length (base_damage self)"
    and "length (modded_elemental self') = length (modded_elemental self)"
proof -
  obtain t s2 s6 where
    c2: "apply_bonus_damage_types (apply_damage self) = Inr (t, s2)" and
    c5: "apply_proc_probabilities (apply_critical_and_status (apply_quantization t s2)) = Inr s6" and
    c6: "apply_other s6 = Inr self'"
    using assms by (rule apply_mods_chain)
  define s1 where "s1 = apply_damage self"
  define s4 where "s4 = apply_quantization t s2"
  define s5 where "s5 = apply_critical_and_status s4"
  note e1 = apply_damage_effect[of self, folded s1_def]
  note m1 = apply_damage_modded[of self, folded s1_def]
  note e2 = apply_bonus_damage_types_effect[OF c2[folded s1_def]]
  note e3 = apply_quantization_effect[of t s2, folded s4_def]
  note e4 = apply_critical_and_status_effect[of s4, folded s5_def]
  note e5 = apply_proc_probabilities_effect[OF c5[folded s4_def, folded s5_def]]
  note e6 = apply_other_effect[OF c6]
  note a6 = accessors_cong[OF e6(3-5)]
  note a5 = accessors_cong[OF e5(2-4)]
  note a4 = accessors_cong[OF e4(1-3)]
  have md: "modded_damage self' = modded_damage s1"
    by (simp add: a6 a5 a4 e3 e2(7)[OF e1(3)])
  have me: "modded_elemental self' = modded_elemental s2"
    by (simp add: a6 a5 a4 e3)
  have mods1: "mods_of s1 = mods_of self" by (rule e1)
  show "modded_damage self' = map (\<lambda>b. (b + b / max (sum_list (base_damage self)) (1 / 100) *
                         bonus_damage_bucket.additive_base (bonusDamagePerShot_m self)) *
                    (1 + damage_bucket.base (damagePerShot_m self)) *
                    damage_bucket.multishot_multiplier (damagePerShot_m self) *
                    damage_bucket.final_multiplier (damagePerShot_m self))
             (base_damage self)"
    unfolding md by (rule m1)
  show "modded_elemental self' =
           (modded_elemental self)
             [0 := modded_damage self' ! 0 * physical_bucket.base (impact_m self),
              1 := modded_damage self' ! 1 * physical_bucket.base (puncture_m self),
              2 := modded_damage self' ! 2 * physical_bucket.base (slash_m self),
              3 := sum_list (modded_damage self') * element_bucket.base (heat_m self),
              4 := sum_list (modded_damage self') * element_bucket.base (cold_m self),
              5 := sum_list (modded_damage self') * element_bucket.base (electric_m self),
              6 := sum_list (modded_damage self') * element_bucket.base (toxin_m self)]"
    unfolding me md e2(6) e1(5) using mods1 by (simp add: mods_of_def)
  have q: "quanta_of t s2 = (sum_list (modded_damage self') + sum_list (modded_elemental self')) / 16"
    by (simp add: quanta_of_def e2(3) md me)
  have md2: "modded_damage s2 = modded_damage self'"
    by (simp add: md e2(7)[OF e1(3)])
  have qd: "quantized_damage self' = quantized_damage s4"
    "quantized_elemental self' = quantized_elemental s4"
    by (simp_all add: a6 a5 a4)
  show "quantized_damage self' =
           quantize ((sum_list (modded_damage self') + sum_list (modded_elemental self')) / 16)
             (modded_damage self')"
    unfolding qd e3(8) q md2 by (rule refl)
  show "quantized_elemental self' =
           quantize ((sum_list (modded_damage self') + sum_list (modded_elemental self')) / 16)
             (modded_elemental self')"
    unfolding qd e3(9) q me[symmetric] by (rule refl)
  have "modded_damage s5 = modded_damage self'" "modded_elemental s5 = modded_elemental self'"
    by (simp_all add: a6 a5)
  then show "procProbabilities self' =
           map (\<lambda>w. w * (if sum_list (map2 (+) (modded_damage self') (modded_elemental self')) > 0
                         then 1 / sum_list (map2 (+) (modded_damage self') (modded_elemental self'))
                         else 0))
             (map2 (+) (modded_damage self') (modded_elemental self'))"
    using e5(8) by (simp add: e6(8))
  show "3 \<le> length (modded_damage self')" using e2(1) by (simp add: md)
  show "length (modded_damage self') = length (modded_elemental self')"
    using e5(1) by (simp add: a6 a5)
  show "7 \<le> length (modded_elemental self')" using e2(2) by (simp add: me e2(6))
  show "length (modded_damage self') = length (base_damage self)"
    by (simp add: md m1)
  show "length (modded_elemental self') = length (modded_elemental self)"
    by (simp add: me e2(6) e1(5))
qed

lemma apply_mods_scalars:
  assumes "apply_mods self = Inr self'"
  shows "mods_of self' = mods_of self"
    and "Parameter.base (FireMode.criticalChance self') = Parameter.base (FireMode.criticalChance self)"
    and "Parameter.base (FireMode.criticalMultiplier self') =
           Parameter.base (FireMode.criticalMultiplier self)"
    and "Parameter.base (FireMode.procChance self') = Parameter.base (FireMode.procChance self)"
    and "Parameter.base (FireMode.multishot self') = Parameter.base (FireMode.multishot self)"
    and "Parameter.base (fireRate self') = Parameter.base (fireRate self)"
    and "Parameter.base (reloadTime self') = Parameter.base (reloadTime self)"
    and "ModifyParameter.base (magazineSize self') = ModifyParameter.base (magazineSize self)"
    and "current (magazineSize self') = current (magazineSize self)"
    and "Parameter.base (chargeTime self') = Parameter.base (chargeTime self)"
    and "Parameter.base (FireMode.embedDelay self') = Parameter.base (FireMode.embedDelay self)"
    and "Parameter.base (ammoCost self') = Parameter.base (ammoCost self)"
    and "Parameter.modded (FireMode.criticalChance self') =
           ((Parameter.base (FireMode.criticalChance self) +
               critical_chance_bucket.additive_base (criticalChance_m self)) *
              (1 + critical_chance_bucket.base (criticalChance_m self)) +
            critical_chance_bucket.additive_final (criticalChance_m self)) *
           deadly_munitions (criticalChance_m self) + covenant (criticalChance_m self)"
    and "Parameter.modded (FireMode.criticalMultiplier self') =
           ((Parameter.base (FireMode.criticalMultiplier self) +
               critical_multiplier_bucket.additive_base (criticalMultiplier_m self)) *
              (1 + critical_multiplier_bucket.base (criticalMultiplier_m self)) +
            critical_multiplier_bucket.additive_final (criticalMultiplier_m self)) *
           critical_multiplier_bucket.final_multiplier (criticalMultiplier_m self)"
    and "Parameter.modded (FireMode.procChance self') =
           (Parameter.base (FireMode.procChance self) +
              proc_chance_bucket.additive_base (procChance_m self)) *
           ((1 + proc_chance_bucket.base (procChance_m self)) +
              proc_chance_bucket.additive_final (procChance_m self)) *
           proc_chance_bucket.final_multiplier (procChance_m self) *
           proc_chance_bucket.multishot_multiplier (procChance_m self)"
    and "Parameter.modded (FireMode.multishot self') =
           Parameter.base (FireMode.multishot self) * (1 + base_bucket.base (multishot_m self))"
    and "Parameter.modded (fireRate self') =
           Parameter.base (fireRate self) * (1 + fire_rate_bucket.base (fireRate_m self))"
    and "Parameter.modded (reloadTime self') =
           Parameter.base (reloadTime self) / (1 + base_bucket.base (reloadTime_m self))"
    and "ModifyParameter.modded (magazineSize self') =
           ModifyParameter.base (magazineSize self) *
           (1 + base_bucket.base (magazineSize_m self))"
    and "Parameter.modded (chargeTime self') =
           Parameter.base (chargeTime self) / (1 + fire_rate_bucket.base (fireRate_m self))"
    and "Parameter.modded (FireMode.embedDelay self') = Parameter.base (FireMode.embedDelay self)"
    and "Parameter.modded (ammoCost self') =
           Parameter.base (ammoCost self) *
           max 0 (1 - ammo_cost_bucket.base (ammoCost_m self)) *
           max 0 (1 - energized_munitions (ammoCost_m self))"
    and "1 + base_bucket.base (reloadTime_m self) \<noteq> 0"
    and "1 + fire_rate_bucket.base (fireRate_m self) \<noteq> 0"
    and "DamageParameter.base (FireMode.damagePerShot self') =
           DamageParameter.base (FireMode.damagePerShot self)"
    and "DamageParameter.base (elementalDamagePerShot self') =
           DamageParameter.base (elementalDamagePerShot self)"
    and "DamageParameter.modded (elementalDamagePerShot self') =
           DamageParameter.modded (elementalDamagePerShot self)"
proof -
  obtain t s2 s6 where
    c2: "apply_bonus_damage_types (apply_damage self) = Inr (t, s2)" and
    c5: "apply_proc_probabilities (apply_critical_and_status (apply_quantization t s2)) = Inr s6" and
    c6: "apply_other s6 = Inr self'"
    using assms by (rule apply_mods_chain)
  define s1 where "s1 = apply_damage self"
  define s4 where "s4 = apply_quantization t s2"
  define s5 where "s5 = apply_critical_and_status s4"
  note e1 = apply_damage_effect[of self, folded s1_def]
  note e2 = apply_bonus_damage_types_effect[OF c2[folded s1_def]]
  note e3 = apply_quantization_effect[of t s2, folded s4_def]
  note e4 = apply_critical_and_status_effect[of s4, folded s5_def]
  note e5 = apply_proc_probabilities_effect[OF c5[folded s4_def, folded s5_def]]
  note e6 = apply_other_effect[OF c6]
  have mods4: "mods_of s4 = mods_of self"
    by (simp add: e3(10) e2(8) e1(6))
  have mods6: "mods_of s6 = mods_of self"
    by (simp add: e5(5) e4(4) mods4)
  have crit4: "crit_params s4 = crit_params self"
    by (simp add: e3(11) e2(9) e1(7))
  have other6: "other_params s6 = other_params self"
    by (simp add: e5(7) e4(5) e3(12) e2(10) e1(8))
  have crit': "crit_params self' = crit_params s5"
    by (simp add: e6(7) e5(6))
  show "mods_of self' = mods_of self"
    by (simp add: e6(6) mods6)
  show "Parameter.base (FireMode.criticalChance self') = Parameter.base (FireMode.criticalChance self)"
    and "Parameter.base (FireMode.criticalMultiplier self') =
           Parameter.base (FireMode.criticalMultiplier self)"
    and "Parameter.base (FireMode.procChance self') = Parameter.base (FireMode.procChance self)"
    using crit' crit4 e4(6-8) by (simp_all add: crit_params_def)
  show "Parameter.modded (FireMode.criticalChance self') =
           ((Parameter.base (FireMode.criticalChance self) +
               critical_chance_bucket.additive_base (criticalChance_m self)) *
              (1 + critical_chance_bucket.base (criticalChance_m self)) +
            critical_chance_bucket.additive_final (criticalChance_m self)) *
           deadly_munitions (criticalChance_m self) + covenant (criticalChance_m self)"
    and "Parameter.modded (FireMode.criticalMultiplier self') =
           ((Parameter.base (FireMode.criticalMultiplier self) +
               critical_multiplier_bucket.additive_base (criticalMultiplier_m self)) *
              (1 + critical_multiplier_bucket.base (criticalMultiplier_m self)) +
            critical_multiplier_bucket.additive_final (criticalMultiplier_m self)) *
           critical_multiplier_bucket.final_multiplier (criticalMultiplier_m self)"
    and "Parameter.modded (FireMode.procChance self') =
           (Parameter.base (FireMode.procChance self) +
              proc_chance_bucket.additive_base (procChance_m self)) *
           ((1 + proc_chance_bucket.base (procChance_m self)) +
              proc_chance_bucket.additive_final (procChance_m self)) *
           proc_chance_bucket.final_multiplier (procChance_m self) *
           proc_chance_bucket.multishot_multiplier (procChance_m self)"
    using crit' crit4 mods4 e4(9-11) by (simp_all add: crit_params_def mods_of_def)
  show "Parameter.base (FireMode.multishot self') = Parameter.base (FireMode.multishot self)"
    and "Parameter.base (fireRate self') = Parameter.base (fireRate self)"
    and "Parameter.base (reloadTime self') = Parameter.base (reloadTime self)"
    and "ModifyParameter.base (magazineSize self') = ModifyParameter.base (magazineSize self)"
    and "current (magazineSize self') = current (magazineSize self)"
    and "Parameter.base (chargeTime self') = Parameter.base (chargeTime self)"
    and "Parameter.base (FireMode.embedDelay self') = Parameter.base (FireMode.embedDelay self)"
    and "Parameter.base (ammoCost self') = Parameter.base (ammoCost self)"
    using other6 e6(9-16) by (simp_all add: other_params_def)
  show "Parameter.modded (FireMode.multishot self') =
           Parameter.base (FireMode.multishot self) * (1 + base_bucket.base (multishot_m self))"
    and "Parameter.modded (fireRate self') =
           Parameter.base (fireRate self) * (1 + fire_rate_bucket.base (fireRate_m self))"
    and "Parameter.modded (reloadTime self') =
           Parameter.base (reloadTime self) / (1 + base_bucket.base (reloadTime_m self))"
    and "ModifyParameter.modded (magazineSize self') =
           ModifyParameter.base (magazineSize self) *
           (1 + base_bucket.base (magazineSize_m self))"
    and "Parameter.modded (chargeTime self') =
           Parameter.base (chargeTime self) / (1 + fire_rate_bucket.base (fireRate_m self))"
    and "Parameter.modded (FireMode.embedDelay self') = Parameter.base (FireMode.embedDelay self)"
    and "Parameter.modded (ammoCost self') =
           Parameter.base (ammoCost self) *
           max 0 (1 - ammo_cost_bucket.base (ammoCost_m self)) *
           max 0 (1 - energized_munitions (ammoCost_m self))"
    and "1 + base_bucket.base (reloadTime_m self) \<noteq> 0"
    and "1 + fire_rate_bucket.base (fireRate_m self) \<noteq> 0"
    using other6 mods6 e6(1,2) e6(17-23) by (simp_all add: other_params_def mods_of_def)
  show "DamageParameter.base (FireMode.damagePerShot self') =
           DamageParameter.base (FireMode.damagePerShot self)"
    and "DamageParameter.base (elementalDamagePerShot self') =
           DamageParameter.base (elementalDamagePerShot self)"
    and "DamageParameter.modded (elementalDamagePerShot self') =
           DamageParameter.modded (elementalDamagePerShot self)"
    by (simp_all add: e6(4,5) e5(3,4) e4(2,3) e3(1-4) e2(4,5) e1(1,2))
qed

lemma apply_mods_returns:
  assumes "apply_mods_pre self"
  shows "\<exists>self'. apply_mods self = Inr self'"
proof -
  define s1 where "s1 = apply_damage self"
  note e1 = apply_damage_effect[of self, folded s1_def]
  note m1 = apply_damage_modded[of self, folded s1_def]
  have l1: "3 \<le> length (modded_damage s1)" "7 \<le> length (modded_elemental s1)"
    "length (modded_damage s1) = length (modded_elemental s1)"
    using assms
    by (simp_all add: m1 e1(5) apply_mods_pre_def)
  obtain t s2 where c2: "apply_bonus_damage_types s1 = Inr (t, s2)"
    using apply_bonus_damage_types_returns[OF l1(1,2)] by blast
  note e2 = apply_bonus_damage_types_effect[OF c2]
  define s4 where "s4 = apply_quantization t s2"
  define s5 where "s5 = apply_critical_and_status s4"
  note e3 = apply_quantization_effect[of t s2, folded s4_def]
  note e4 = apply_critical_and_status_effect[of s4, folded s5_def]
  note a4 = accessors_cong[OF e4(1-3)]
  have "length (modded_damage s5) = length (modded_elemental s5)"
    using l1(3) by (simp add: a4 e3(6,7) e2(6) e2(7)[OF e1(3)])
  then obtain s6 where c5: "apply_proc_probabilities s5 = Inr s6"
    using apply_proc_probabilities_returns by blast
  note e5 = apply_proc_probabilities_effect[OF c5]
  have mods6: "mods_of s6 = mods_of self"
    by (simp add: e5(5) e4(4) e3(10) e2(8) e1(6))
  have "1 + base_bucket.base (reloadTime_m s6) \<noteq> 0"
    "1 + fire_rate_bucket.base (fireRate_m s6) \<noteq> 0"
    using assms mods6 by (simp_all add: apply_mods_pre_def mods_of_def)
  then obtain r where "apply_other s6 = Inr r"
    using apply_other_returns by blast
  then show ?thesis
    using c2 c5 by (simp add: apply_mods_def s1_def s4_def s5_def)
qed

section \<open>The constructor and the example fire modes\<close>

lemma attributes_arrays:
  "base_damage (load_mods (FireMode_attributes nm data effects)) =
     dict_get (FireModeData.damagePerShot data) (replicate 20 0)"
  "modded_elemental (load_mods (FireMode_attributes nm data effects)) = replicate 20 0"
  by (simp_all add: base_damage_def modded_elemental_def load_mods_def FireMode_attributes_def
      DamageParameter_init_def Let_def)

lemma attributes_mods:
  "mods_of (load_mods (FireMode_attributes nm data effects)) =
     mods_of (FireMode_attributes nm data effects)"
  by (simp add: mods_of_def load_mods_def FireMode_attributes_def Let_def)

lemma attributes_pre:
  "apply_mods_pre (load_mods (FireMode_attributes nm data effects)) \<longleftrightarrow>
     length (dict_get (FireModeData.damagePerShot data) (replicate 20 0)) = 20"
  unfolding apply_mods_pre_def attributes_arrays
  by (auto simp: load_mods_def FireMode_attributes_def Let_def)

lemma FireMode_init_returns:
  assumes "secondaryEffects data = []"
    and "length (dict_get (FireModeData.damagePerShot data) (replicate 20 0)) = 20"
  shows "\<exists>self. FireMode_init M nm data = Inr self"
proof -
  obtain s where "apply_mods (load_mods (FireMode_attributes nm data [])) = Inr s"
    using apply_mods_returns attributes_pre assms(2) by blast
  then show ?thesis
    by (simp add: FireMode_init_def assms(1))
qed

lemma FireMode_init_InrD:
  assumes "FireMode_init M nm data = Inr self"
  obtains effects s where "build_effects M None (secondaryEffects data) = Inr effects"
    and "apply_mods (load_mods (FireMode_attributes nm data effects)) = Inr s"
    and "self = s\<lparr>refresh := True\<rparr>"
  using assms by (auto simp: FireMode_init_def split: sum.splits)

lemma sum_list_scaled:
  fixes ws :: "real list"
  shows "sum_list (map (\<lambda>w. w * c) ws) = sum_list ws * c"
  by (induction ws) (simp_all add: algebra_simps)

lemma sum_list_divided:
  fixes ws :: "real list"
  shows "sum_list (map (\<lambda>w. w / c) ws) = sum_list ws / c"
  by (induction ws) (simp_all add: add_divide_distrib)

lemma zeros20:
  "replicate 20 (0::real) = [0, 0, 0, 0, 0, 0, 0, 0, 0, 0, 0, 0, 0, 0, 0, 0, 0, 0, 0, 0]"
  by (simp add: eval_nat_numeral)

lemma default_mods_arrays:
  assumes "apply_mods self = Inr self'"
    and "mods_of self = mods_of (FireMode_attributes nm data effects)"
  shows "modded_damage self' = base_damage self"
    and "modded_elemental self' =
           (modded_elemental self)[0 := 0, 1 := 0, 2 := 0, 3 := 0, 4 := 0, 5 := 0, 6 := 0]"
proof -
  note a = apply_mods_arrays(1,2)[OF assms(1)]
  have m: "bonus_damage_bucket.additive_base (bonusDamagePerShot_m self) = 0"
    "damage_bucket.base (damagePerShot_m self) = 0"
    "damage_bucket.multishot_multiplier (damagePerShot_m self) = 1"
    "damage_bucket.final_multiplier (damagePerShot_m self) = 1"
    "physical_bucket.base (impact_m self) = 0" "physical_bucket.base (puncture_m self) = 0"
    "physical_bucket.base (slash_m self) = 0" "element_bucket.base (heat_m self) = 0"
    "element_bucket.base (cold_m self) = 0" "element_bucket.base (electric_m self) = 0"
    "element_bucket.base (toxin_m self) = 0"
    using assms(2) by (simp_all add: mods_of_def FireMode_attributes_def Let_def)
  show "modded_damage self' = base_damage self"
    unfolding a(1) m by simp
  show "modded_elemental self' =
           (modded_elemental self)[0 := 0, 1 := 0, 2 := 0, 3 := 0, 4 := 0, 5 := 0, 6 := 0]"
    unfolding a(2) m by simp
qed

lemma fire_mode_Y_result:
  obtains s where "apply_mods fire_mode_Y = Inr s"
    and "modded_damage s = [10, 1, 0, 0, 0, 0, 0, 0, 0, 0, 0, 0, 0, 0, 0, 0, 0, 0, 0, 0]"
    and "modded_elemental s = [0, 0, 0, 0, 0, 0, 0, 0, 0, 0, 0, 0, 0, 0, 0, 0, 0, 0, 0, 0]"
proof -
  have "apply_mods_pre fire_mode_Y"
    unfolding fire_mode_Y_def attributes_pre
    by (simp add: weapon_Y_def empty_data_def dict_get_def)
  then obtain s where s: "apply_mods fire_mode_Y = Inr s"
    using apply_mods_returns by blast
  have m: "mods_of fire_mode_Y = mods_of (FireMode_attributes ''Y'' weapon_Y [])"
    unfolding fire_mode_Y_def by (rule attributes_mods)
  have "modded_damage s = [10, 1, 0, 0, 0, 0, 0, 0, 0, 0, 0, 0, 0, 0, 0, 0, 0, 0, 0, 0]"
    unfolding default_mods_arrays(1)[OF s m]
    by (simp add: fire_mode_Y_def attributes_arrays weapon_Y_def empty_data_def dict_get_def)
  moreover have "modded_elemental s = [0, 0, 0, 0, 0, 0, 0, 0, 0, 0, 0, 0, 0, 0, 0, 0, 0, 0, 0, 0]"
    unfolding default_mods_arrays(2)[OF s m]
    by (simp add: fire_mode_Y_def attributes_arrays zeros20)
  ultimately show ?thesis
    using s that by blast
qed

lemma fire_mode_empty_result:
  obtains s where "apply_mods fire_mode_empty = Inr s"
    and "modded_damage s = [0, 0, 0, 0, 0, 0, 0, 0, 0, 0, 0, 0, 0, 0, 0, 0, 0, 0, 0, 0]"
    and "modded_elemental s = [0, 0, 0, 0, 0, 0, 0, 0, 0, 0, 0, 0, 0, 0, 0, 0, 0, 0, 0, 0]"
proof -
  have "apply_mods_pre fire_mode_empty"
    unfolding fire_mode_empty_def attributes_pre
    by (simp add: empty_data_def dict_get_def)
  then obtain s where s: "apply_mods fire_mode_empty = Inr s"
    using apply_mods_returns by blast
  have m: "mods_of fire_mode_empty = mods_of (FireMode_attributes ''E'' empty_data [])"
    unfolding fire_mode_empty_def by (rule attributes_mods)
  have "modded_damage s = [0, 0, 0, 0, 0, 0, 0, 0, 0, 0, 0, 0, 0, 0, 0, 0, 0, 0, 0, 0]"
    unfolding default_mods_arrays(1)[OF s m]
    by (simp add: fire_mode_empty_def attributes_arrays empty_data_def dict_get_def zeros20)
  moreover have "modded_elemental s = [0, 0, 0, 0, 0, 0, 0, 0, 0, 0, 0, 0, 0, 0, 0, 0, 0, 0, 0, 0]"
    unfolding default_mods_arrays(2)[OF s m]
    by (simp add: fire_mode_empty_def attributes_arrays zeros20)
  ultimately show ?thesis
    using s that by blast
qed

lemma fire_mode_Z_result:
  obtains s where "apply_mods fire_mode_Z = Inr s"
    and "modded_damage s = [10, 0, 0, 5, 0, 0, 0, 0, 0, 0, 0, 0, 0, 0, 0, 0, 0, 0, 0, 0]"
    and "modded_elemental s = [0, 0, 0, 15, 0, 0, 0, 0, 0, 0, 0, 0, 0, 0, 0, 0, 0, 0, 0, 0]"
proof -
  have b: "base_damage fire_mode_Z = [10, 0, 0, 5, 0, 0, 0, 0, 0, 0, 0, 0, 0, 0, 0, 0, 0, 0, 0, 0]"
    and e: "modded_elemental fire_mode_Z = [0, 0, 0, 0, 0, 0, 0, 0, 0, 0, 0, 0, 0, 0, 0, 0, 0, 0, 0, 0]"
    by (simp_all add: fire_mode_Z_def base_damage_def modded_elemental_def load_mods_def
        FireMode_attributes_def DamageParameter_init_def Let_def weapon_Z_def empty_data_def
        dict_get_def zeros20)
  have m: "bonus_damage_bucket.additive_base (bonusDamagePerShot_m fire_mode_Z) = 0"
    "damage_bucket.base (damagePerShot_m fire_mode_Z) = 0"
    "damage_bucket.multishot_multiplier (damagePerShot_m fire_mode_Z) = 1"
    "damage_bucket.final_multiplier (damagePerShot_m fire_mode_Z) = 1"
    "physical_bucket.base (impact_m fire_mode_Z) = 0"
    "physical_bucket.base (puncture_m fire_mode_Z) = 0"
    "physical_bucket.base (slash_m fire_mode_Z) = 0"
    "element_bucket.base (heat_m fire_mode_Z) = 1"
    "element_bucket.base (cold_m fire_mode_Z) = 0"
    "element_bucket.base (electric_m fire_mode_Z) = 0"
    "element_bucket.base (toxin_m fire_mode_Z) = 0"
    "base_bucket.base (reloadTime_m fire_mode_Z) = 0"
    "fire_rate_bucket.base (fireRate_m fire_mode_Z) = 0"
    by (simp_all add: fire_mode_Z_def load_mods_def FireMode_attributes_def Let_def)
  have "apply_mods_pre fire_mode_Z"
    by (simp add: apply_mods_pre_def b e m)
  then obtain s where s: "apply_mods fire_mode_Z = Inr s"
    using apply_mods_returns by blast
  note a = apply_mods_arrays(1,2)[OF s]
  have d: "modded_damage s = [10, 0, 0, 5, 0, 0, 0, 0, 0, 0, 0, 0, 0, 0, 0, 0, 0, 0, 0, 0]"
    unfolding a(1) b m by simp
  have "modded_elemental s = [0, 0, 0, 15, 0, 0, 0, 0, 0, 0, 0, 0, 0, 0, 0, 0, 0, 0, 0, 0]"
    unfolding a(2) d e m by simp
  with s d that show ?thesis
    by blast
qed

section \<open>The multishot tier roll\<close>

lemma get_tier_general:
  "get_tier r x = (if r < frac x then 1 else 0) + (if 0 \<le> x then \<lfloor>x\<rfloor> else \<lceil>x\<rceil>)"
  by (simp add: get_tier_def py_mod1_def py_int_def frac_def)

text \<open>
  Claim C9, as amended. For every chance \<open>x\<close> that is not negative, or is an integer, and
  every value \<open>r\<close> of the random source, \<^verbatim>\<open>get_tier\<close> returns \<open>floor x + 1\<close> when \<open>r\<close> is
  below the fractional part of \<open>x\<close>, and \<open>floor x\<close> otherwise.
\<close>

theorem get_tier_tiered:
  "0 \<le> x \<or> x \<in> \<int> \<Longrightarrow> get_tier r x = (if r < frac x then \<lfloor>x\<rfloor> + 1 else \<lfloor>x\<rfloor>)"
  by (auto simp: get_tier_def py_mod1_def py_int_def frac_def elim!: Ints_cases)

theorem get_tier_tiered_witness:
  "((0::real) \<le> 23 / 10 \<or> (23 / 10 :: real) \<in> \<int>) \<and> get_tier (1 / 5) (23 / 10) = 3 \<and>
   get_tier (1 / 2) (23 / 10) = 2"
  using get_tier_tiered[of "23 / 10" "1 / 5"] get_tier_tiered[of "23 / 10" "1 / 2"]
  by (simp add: frac_def)

text \<open>
  The rule does not hold for every input: \<^verbatim>\<open>int(chance)\<close> truncates toward zero, so for
  \<open>x = -0.3\<close> and \<open>r = 0.9\<close> the function returns 0, where the rule gives \<open>floor x = -1\<close>.
\<close>

theorem get_tier_negative_counterexample:
  "get_tier (9 / 10) (- 3 / 10) = 0 \<and>
   (if (9 / 10 :: real) < frac (- 3 / 10) then \<lfloor>- 3 / 10 :: real\<rfloor> + 1 else \<lfloor>- 3 / 10 :: real\<rfloor>) = - 1"
  by (simp add: get_tier_def py_mod1_def py_int_def frac_def)

section \<open>reset\<close>

text \<open>
  Claim C3, as amended. \<^verbatim>\<open>reset\<close> sets the modded value of every parameter to its base
  value, makes the modded and the quantized array of both damage parameters the base
  array, keeps every base value and every modifier bucket, sets \<^verbatim>\<open>attack_index\<close> to 1,
  and sets the current ammo of the magazine to the magazine's base value.
\<close>

theorem reset_restores:
  "Parameter.modded (FireMode.criticalChance (reset self)) = Parameter.base (FireMode.criticalChance self) \<and>
   Parameter.modded (FireMode.criticalMultiplier (reset self)) = Parameter.base (FireMode.criticalMultiplier self) \<and>
   Parameter.modded (FireMode.procChance (reset self)) = Parameter.base (FireMode.procChance self) \<and>
   Parameter.modded (fireRate (reset self)) = Parameter.base (fireRate self) \<and>
   Parameter.modded (reloadTime (reset self)) = Parameter.base (reloadTime self) \<and>
   Parameter.modded (FireMode.multishot (reset self)) = Parameter.base (FireMode.multishot self) \<and>
   Parameter.modded (ammoCost (reset self)) = Parameter.base (ammoCost self) \<and>
   Parameter.modded (chargeTime (reset self)) = Parameter.base (chargeTime self) \<and>
   Parameter.modded (FireMode.embedDelay (reset self)) = Parameter.base (FireMode.embedDelay self) \<and>
   ModifyParameter.modded (magazineSize (reset self)) = ModifyParameter.base (magazineSize self) \<and>
   modded_damage (reset self) = base_damage self \<and>
   quantized_damage (reset self) = Some (base_damage self) \<and>
   modded_elemental (reset self) = base_elemental self \<and>
   quantized_elemental (reset self) = Some (base_elemental self) \<and>
   Parameter.base (FireMode.criticalChance (reset self)) = Parameter.base (FireMode.criticalChance self) \<and>
   Parameter.base (FireMode.criticalMultiplier (reset self)) = Parameter.base (FireMode.criticalMultiplier self) \<and>
   Parameter.base (FireMode.procChance (reset self)) = Parameter.base (FireMode.procChance self) \<and>
   Parameter.base (fireRate (reset self)) = Parameter.base (fireRate self) \<and>
   Parameter.base (reloadTime (reset self)) = Parameter.base (reloadTime self) \<and>
   Parameter.base (FireMode.multishot (reset self)) = Parameter.base (FireMode.multishot self) \<and>
   Parameter.base (ammoCost (reset self)) = Parameter.base (ammoCost self) \<and>
   Parameter.base (chargeTime (reset self)) = Parameter.base (chargeTime self) \<and>
   Parameter.base (FireMode.embedDelay (reset self)) = Parameter.base (FireMode.embedDelay self) \<and>
   ModifyParameter.base (magazineSize (reset self)) = ModifyParameter.base (magazineSize self) \<and>
   base_damage (reset self) = base_damage self \<and>
   base_elemental (reset self) = base_elemental self \<and>
   mods_of (reset self) = mods_of self \<and>
   current (magazineSize (reset self)) = ModifyParameter.base (magazineSize self) \<and>
   attack_index (reset self) = 1"
  by (simp add: reset_def Parameter_reset_def ModifyParameter_reset_def DamageParameter_reset_def
      Let_def modded_damage_def base_damage_def modded_elemental_def base_elemental_def
      quantized_damage_def quantized_elemental_def deref_quantized_def mods_of_def)

text \<open>
  The current ammo is not left alone: a magazine of base size 2 holding 1 round holds
  2 after \<^verbatim>\<open>reset\<close>.
\<close>

theorem reset_current_counterexample:
  "current (magazineSize
     ((FireMode_attributes ''Y'' weapon_Y [])
        \<lparr>magazineSize := \<lparr>ModifyParameter.base = 2, modded = 2, current = 1\<rparr>\<rparr>)) = 1 \<and>
   current (magazineSize (reset
     ((FireMode_attributes ''Y'' weapon_Y [])
        \<lparr>magazineSize := \<lparr>ModifyParameter.base = 2, modded = 2, current = 1\<rparr>\<rparr>))) = 2"
  by (simp add: reset_def ModifyParameter_reset_def Let_def)

section \<open>The critical multiplier base\<close>

text \<open>
  Claim C7. For every fire mode the constructor returns, the stored base of the
  critical multiplier is \<open>round(raw * (128 - 1/32)) / (128 - 1/32)\<close> for the raw value of
  the data record (1 when the record has none), with the rounding of Python's \<^verbatim>\<open>round\<close>.
  The modded value that the constructor's \<^verbatim>\<open>apply_mods\<close> computes is taken from this
  quantized base; with the buckets of the constructor it is the base itself. \<^verbatim>\<open>reset\<close>
  leaves the base as it is. (\<open>apply_mods\<close> never writes a base: \<open>apply_mods_scalars\<close>.)
\<close>

theorem criticalMultiplier_base_quantized:
  assumes "FireMode_init M nm data = Inr self"
  shows "Parameter.base (FireMode.criticalMultiplier self) =
           of_int (py_round (dict_get (FireModeData.criticalMultiplier data) 1 * (128 - 1 / 32))) /
           (128 - 1 / 32) \<and>
         Parameter.modded (FireMode.criticalMultiplier self) =
           Parameter.base (FireMode.criticalMultiplier self) \<and>
         Parameter.base (FireMode.criticalMultiplier (reset self)) =
           Parameter.base (FireMode.criticalMultiplier self)"
proof -
  obtain effects s where
    s: "apply_mods (load_mods (FireMode_attributes nm data effects)) = Inr s" and
    self: "self = s\<lparr>refresh := True\<rparr>"
    using assms by (rule FireMode_init_InrD)
  note sc = apply_mods_scalars(3,14)[OF s]
  have "Parameter.base (FireMode.criticalMultiplier s) =
          of_int (py_round (dict_get (FireModeData.criticalMultiplier data) 1 * (128 - 1 / 32))) /
          (128 - 1 / 32)"
    unfolding sc
    by (simp add: load_mods_def FireMode_attributes_def Let_def Parameter_init_def)
  moreover have "Parameter.modded (FireMode.criticalMultiplier s) =
          Parameter.base (FireMode.criticalMultiplier s)"
    unfolding sc
    by (simp add: load_mods_def FireMode_attributes_def Let_def)
  ultimately show ?thesis
    by (simp add: self reset_def Parameter_reset_def)
qed

text \<open>
  For a raw multiplier of 2 the stored base is \<open>256 / 127.96875 = 8192 / 4095\<close>.
\<close>

theorem criticalMultiplier_base_quantized_witness:
  "\<exists>self. FireMode_init 0 ''Y'' weapon_Y = Inr self \<and>
      Parameter.base (FireMode.criticalMultiplier self) = 8192 / 4095 \<and>
      Parameter.modded (FireMode.criticalMultiplier self) = 8192 / 4095 \<and>
      Parameter.base (FireMode.criticalMultiplier (reset self)) = 8192 / 4095"
proof -
  obtain self where s: "FireMode_init 0 ''Y'' weapon_Y = Inr self"
    using FireMode_init_returns[of weapon_Y 0 "''Y''"]
    by (auto simp: weapon_Y_def empty_data_def dict_get_def)
  have "of_int (py_round (dict_get (FireModeData.criticalMultiplier weapon_Y) 1 * (128 - 1 / 32))) /
          (128 - 1 / 32) = (8192 / 4095 :: real)"
    by (simp add: weapon_Y_def empty_data_def dict_get_def py_round_def)
  with criticalMultiplier_base_quantized[OF s] s show ?thesis
    by auto
qed

section \<open>The proc distribution\<close>

text \<open>
  Claim C8. After \<^verbatim>\<open>apply_mods\<close>, with the total weight being the sum over all slots of
  modded damage plus modded elemental damage: the proc probabilities sum to 1 when the
  total weight is positive, and are the zero vector when it is 0.
\<close>

theorem procProbabilities_normalized:
  assumes "apply_mods self = Inr self'"
  shows "let tot_weight = sum_list (map2 (+) (modded_damage self') (modded_elemental self'))
         in (0 < tot_weight \<longrightarrow> sum_list (procProbabilities self') = 1) \<and>
            (tot_weight = 0 \<longrightarrow>
               procProbabilities self' = replicate (length (modded_damage self')) 0)"
proof -
  define ws where "ws = map2 (+) (modded_damage self') (modded_elemental self')"
  have p: "procProbabilities self' =
             map (\<lambda>w. w * (if sum_list ws > 0 then 1 / sum_list ws else 0)) ws"
    unfolding ws_def by (rule apply_mods_arrays(5)[OF assms])
  have len: "length ws = length (modded_damage self')"
    using apply_mods_arrays(8)[OF assms] by (simp add: ws_def)
  have "sum_list (procProbabilities self') = 1" if "0 < sum_list ws"
    using that by (simp add: p sum_list_divided)
  moreover have "procProbabilities self' = replicate (length (modded_damage self')) 0"
    if "sum_list ws = 0"
    using that len by (simp add: p map_replicate_const)
  ultimately show ?thesis
    by (simp add: ws_def Let_def)
qed

theorem procProbabilities_normalized_witness:
  "\<exists>s1 s0. apply_mods fire_mode_Y = Inr s1 \<and> sum_list (procProbabilities s1) = 1 \<and>
           apply_mods fire_mode_empty = Inr s0 \<and> procProbabilities s0 = replicate 20 0"
proof -
  obtain s1 where s1: "apply_mods fire_mode_Y = Inr s1"
    and a1: "modded_damage s1 = [10, 1, 0, 0, 0, 0, 0, 0, 0, 0, 0, 0, 0, 0, 0, 0, 0, 0, 0, 0]"
      "modded_elemental s1 = [0, 0, 0, 0, 0, 0, 0, 0, 0, 0, 0, 0, 0, 0, 0, 0, 0, 0, 0, 0]"
    by (rule fire_mode_Y_result)
  obtain s0 where s0: "apply_mods fire_mode_empty = Inr s0"
    and a0: "modded_damage s0 = [0, 0, 0, 0, 0, 0, 0, 0, 0, 0, 0, 0, 0, 0, 0, 0, 0, 0, 0, 0]"
      "modded_elemental s0 = [0, 0, 0, 0, 0, 0, 0, 0, 0, 0, 0, 0, 0, 0, 0, 0, 0, 0, 0, 0]"
    by (rule fire_mode_empty_result)
  have "sum_list (procProbabilities s1) = 1"
    using procProbabilities_normalized[OF s1] by (simp add: a1)
  moreover have "procProbabilities s0 = replicate 20 0"
    using procProbabilities_normalized[OF s0] by (simp add: a0 zeros20)
  ultimately show ?thesis
    using s1 s0 by blast
qed

text \<open>
  Claim C1, as amended. After \<^verbatim>\<open>apply_mods\<close> the proc probability of every slot is the
  slot's modded damage plus its modded elemental damage (the arrays before
  quantization), divided by the total of these weights, and 0 when the total is not
  positive.
\<close>

theorem procProbabilities_from_modded:
  assumes "apply_mods self = Inr self'"
  shows "let tot_weight = sum_list (map2 (+) (modded_damage self') (modded_elemental self'))
         in length (procProbabilities self') = length (modded_damage self') \<and>
            (\<forall>i < length (procProbabilities self').
               procProbabilities self' ! i =
                 (if 0 < tot_weight
                  then (modded_damage self' ! i + modded_elemental self' ! i) / tot_weight
                  else 0))"
proof -
  define ws where "ws = map2 (+) (modded_damage self') (modded_elemental self')"
  have p: "procProbabilities self' =
             map (\<lambda>w. w * (if sum_list ws > 0 then 1 / sum_list ws else 0)) ws"
    unfolding ws_def by (rule apply_mods_arrays(5)[OF assms])
  have len: "length ws = length (modded_damage self')"
    using apply_mods_arrays(8)[OF assms] by (simp add: ws_def)
  have "ws ! i = modded_damage self' ! i + modded_elemental self' ! i" if "i < length ws" for i
    using that by (simp add: ws_def)
  then show ?thesis
    using len by (simp add: p ws_def[symmetric] Let_def)
qed

theorem procProbabilities_from_modded_witness:
  "\<exists>s. apply_mods fire_mode_Y = Inr s \<and> length (procProbabilities s) = 20 \<and>
       procProbabilities s ! 0 = 10 / 11 \<and> procProbabilities s ! 1 = 1 / 11 \<and>
       procProbabilities s ! 2 = 0"
proof -
  obtain s where s: "apply_mods fire_mode_Y = Inr s"
    and a: "modded_damage s = [10, 1, 0, 0, 0, 0, 0, 0, 0, 0, 0, 0, 0, 0, 0, 0, 0, 0, 0, 0]"
      "modded_elemental s = [0, 0, 0, 0, 0, 0, 0, 0, 0, 0, 0, 0, 0, 0, 0, 0, 0, 0, 0, 0]"
    by (rule fire_mode_Y_result)
  have t: "length (procProbabilities s) = 20 \<and>
        (\<forall>i<20. procProbabilities s ! i =
           ([10, 1, 0, 0, 0, 0, 0, 0, 0, 0, 0, 0, 0, 0, 0, 0, 0, 0, 0, 0] ! i +
            [0, 0, 0, 0, 0, 0, 0, 0, 0, 0, 0, 0, 0, 0, 0, 0, 0, 0, 0, 0] ! i) / (11::real))"
    using procProbabilities_from_modded[OF s] by (simp add: a Let_def)
  have "procProbabilities s ! 0 = 10 / 11" "procProbabilities s ! 1 = 1 / 11"
    "procProbabilities s ! 2 = 0"
    using t[THEN conjunct2, rule_format, of 0] t[THEN conjunct2, rule_format, of 1]
      t[THEN conjunct2, rule_format, of 2]
    by simp_all
  then show ?thesis
    using s t by blast
qed

text \<open>
  The distribution is not built from the quantized arrays. For a base damage of 10
  impact and 1 puncture the quantum is \<open>11/16\<close>, the quantized damage is \<open>165/16\<close> and
  \<open>11/16\<close>, and the quantized weights would give slot 1 the probability \<open>1/16\<close>; the
  code gives it \<open>1/11\<close>.
\<close>

theorem procProbabilities_quantized_counterexample:
  "procProbabilities (projr (apply_mods fire_mode_Y)) ! 1 = 1 / 11 \<and>
   quantized_damage (projr (apply_mods fire_mode_Y)) =
     Some [165 / 16, 11 / 16, 0, 0, 0, 0, 0, 0, 0, 0, 0, 0, 0, 0, 0, 0, 0, 0, 0, 0] \<and>
   quantized_elemental (projr (apply_mods fire_mode_Y)) =
     Some [0, 0, 0, 0, 0, 0, 0, 0, 0, 0, 0, 0, 0, 0, 0, 0, 0, 0, 0, 0] \<and>
   (11 / 16 + 0) /
     sum_list (map2 (+) [165 / 16, 11 / 16, 0, 0, 0, 0, 0, 0, 0, 0, 0, 0, 0, 0, 0, 0, 0, 0, 0, 0]
                        [0, 0, 0, 0, 0, 0, 0, 0, 0, 0, 0, 0, 0, 0, 0, 0, 0, 0, 0, 0]) =
     (1 / 16 :: real)"
proof -
  obtain s where s: "apply_mods fire_mode_Y = Inr s"
    and a: "modded_damage s = [10, 1, 0, 0, 0, 0, 0, 0, 0, 0, 0, 0, 0, 0, 0, 0, 0, 0, 0, 0]"
      "modded_elemental s = [0, 0, 0, 0, 0, 0, 0, 0, 0, 0, 0, 0, 0, 0, 0, 0, 0, 0, 0, 0]"
    by (rule fire_mode_Y_result)
  note r = apply_mods_arrays(3,4,5)[OF s]
  have "procProbabilities s ! 1 = 1 / 11"
    unfolding r(3) a by simp
  moreover have "quantized_damage s =
     Some [165 / 16, 11 / 16, 0, 0, 0, 0, 0, 0, 0, 0, 0, 0, 0, 0, 0, 0, 0, 0, 0, 0]"
    unfolding r(1) a by (simp add: quantize_def py_round_def)
  moreover have "quantized_elemental s =
     Some [0, 0, 0, 0, 0, 0, 0, 0, 0, 0, 0, 0, 0, 0, 0, 0, 0, 0, 0, 0]"
    unfolding r(2) a by (simp add: quantize_def py_round_def)
  ultimately show ?thesis
    by (simp add: s)
qed

section \<open>Elemental bonus damage and the quantum\<close>

text \<open>
  Claim C2, as amended. After \<^verbatim>\<open>apply_mods\<close>, with \<open>total_base_damage\<close> the sum of all
  slots of the modded damage array: slots 0, 1 and 2 of the elemental array are the
  modded damage of the slot times the impact, puncture and slash modifier; slots 3 to
  6 are \<open>total_base_damage\<close> times the heat, cold, electric and toxin modifier; the
  other slots are not written; and both quantized arrays are computed with the
  quantum \<open>(total_base_damage + E) / 16\<close>, \<open>E\<close> the sum of the elemental array.
\<close>

theorem elemental_bonus_from_total:
  assumes "apply_mods self = Inr self'"
  shows "let dmg = modded_damage self'; elem = modded_elemental self';
             total_base_damage = sum_list dmg;
             quanta = (total_base_damage + sum_list elem) / 16
         in elem ! 0 = dmg ! 0 * physical_bucket.base (impact_m self) \<and>
            elem ! 1 = dmg ! 1 * physical_bucket.base (puncture_m self) \<and>
            elem ! 2 = dmg ! 2 * physical_bucket.base (slash_m self) \<and>
            elem ! 3 = total_base_damage * element_bucket.base (heat_m self) \<and>
            elem ! 4 = total_base_damage * element_bucket.base (cold_m self) \<and>
            elem ! 5 = total_base_damage * element_bucket.base (electric_m self) \<and>
            elem ! 6 = total_base_damage * element_bucket.base (toxin_m self) \<and>
            (\<forall>i. 7 \<le> i \<and> i < length elem \<longrightarrow> elem ! i = modded_elemental self ! i) \<and>
            quantized_damage self' = quantize quanta dmg \<and>
            quantized_elemental self' = quantize quanta elem"
proof -
  note a = apply_mods_arrays[OF assms]
  have len: "7 \<le> length (modded_elemental self)"
    using a(7) a(10) by simp
  have ne: "modded_elemental self \<noteq> []"
    using len by auto
  have "modded_elemental self' ! 0 = modded_damage self' ! 0 * physical_bucket.base (impact_m self)"
    "modded_elemental self' ! 1 = modded_damage self' ! 1 * physical_bucket.base (puncture_m self)"
    "modded_elemental self' ! 2 = modded_damage self' ! 2 * physical_bucket.base (slash_m self)"
    "modded_elemental self' ! 3 = sum_list (modded_damage self') * element_bucket.base (heat_m self)"
    "modded_elemental self' ! 4 = sum_list (modded_damage self') * element_bucket.base (cold_m self)"
    "modded_elemental self' ! 5 = sum_list (modded_damage self') * element_bucket.base (electric_m self)"
    "modded_elemental self' ! 6 = sum_list (modded_damage self') * element_bucket.base (toxin_m self)"
    using len ne unfolding a(2) by simp_all
  moreover have "modded_elemental self' ! i = modded_elemental self ! i" if "7 \<le> i" for i
    using that unfolding a(2) by simp
  ultimately show ?thesis
    using a(3,4) by (simp add: Let_def)
qed

theorem elemental_bonus_from_total_witness:
  "\<exists>s. apply_mods fire_mode_Z = Inr s \<and>
       modded_elemental s ! 3 = 15 \<and>
       quantized_damage s =
         Some [75 / 8, 0, 0, 45 / 8, 0, 0, 0, 0, 0, 0, 0, 0, 0, 0, 0, 0, 0, 0, 0, 0] \<and>
       quantized_elemental s =
         Some [0, 0, 0, 15, 0, 0, 0, 0, 0, 0, 0, 0, 0, 0, 0, 0, 0, 0, 0, 0]"
proof -
  obtain s where s: "apply_mods fire_mode_Z = Inr s"
    and a: "modded_damage s = [10, 0, 0, 5, 0, 0, 0, 0, 0, 0, 0, 0, 0, 0, 0, 0, 0, 0, 0, 0]"
      "modded_elemental s = [0, 0, 0, 15, 0, 0, 0, 0, 0, 0, 0, 0, 0, 0, 0, 0, 0, 0, 0, 0]"
    by (rule fire_mode_Z_result)
  have "modded_elemental s ! 3 = 15 \<and>
       quantized_damage s =
         Some [75 / 8, 0, 0, 45 / 8, 0, 0, 0, 0, 0, 0, 0, 0, 0, 0, 0, 0, 0, 0, 0, 0] \<and>
       quantized_elemental s =
         Some [0, 0, 0, 15, 0, 0, 0, 0, 0, 0, 0, 0, 0, 0, 0, 0, 0, 0, 0, 0]"
    using elemental_bonus_from_total[OF s]
    by (simp add: a Let_def quantize_def py_round_def)
  then show ?thesis
    using s by blast
qed

text \<open>
  The total is not the sum of the three physical slots. With a base damage of 10
  impact and 5 heat and a heat modifier of 1, the heat slot of the elemental array
  is 15, where the physical slots alone would give 10.
\<close>

theorem elemental_bonus_physical_counterexample:
  "modded_elemental (projr (apply_mods fire_mode_Z)) ! 3 = 15 \<and>
   (modded_damage (projr (apply_mods fire_mode_Z)) ! 0 +
    modded_damage (projr (apply_mods fire_mode_Z)) ! 1 +
    modded_damage (projr (apply_mods fire_mode_Z)) ! 2) *
     element_bucket.base (heat_m fire_mode_Z) = 10"
proof -
  obtain s where s: "apply_mods fire_mode_Z = Inr s"
    and a: "modded_damage s = [10, 0, 0, 5, 0, 0, 0, 0, 0, 0, 0, 0, 0, 0, 0, 0, 0, 0, 0, 0]"
      "modded_elemental s = [0, 0, 0, 15, 0, 0, 0, 0, 0, 0, 0, 0, 0, 0, 0, 0, 0, 0, 0, 0]"
    by (rule fire_mode_Z_result)
  have "element_bucket.base (heat_m fire_mode_Z) = 1"
    by (simp add: fire_mode_Z_def)
  then show ?thesis
    by (simp add: s a)
qed

section \<open>apply\_mods with the buckets of the constructor\<close>

text \<open>
  Claim C10. For a fire mode whose modifier buckets all have the values the
  constructor gives them and whose base damage has a positive sum, \<^verbatim>\<open>apply_mods\<close> is the
  identity on every statistic: the modded damage array after the call is the base
  damage array of the fire mode the call was made on, and for critical chance,
  critical multiplier, status chance, multishot, fire rate, reload time, magazine
  size, charge time, embed delay and ammo cost the modded value after the call is the
  base value the fire mode had at the call, which the call leaves as it is.
\<close>

theorem apply_mods_identity_default_mods:
  assumes "apply_mods self = Inr self'"
    and "mods_of self = mods_of (FireMode_attributes nm data effects)"
    and "0 < sum_list (base_damage self)"
  shows "modded_damage self' = base_damage self \<and>
         Parameter.modded (FireMode.criticalChance self') = Parameter.base (FireMode.criticalChance self) \<and>
         Parameter.base (FireMode.criticalChance self') = Parameter.base (FireMode.criticalChance self) \<and>
         Parameter.modded (FireMode.criticalMultiplier self') = Parameter.base (FireMode.criticalMultiplier self) \<and>
         Parameter.base (FireMode.criticalMultiplier self') = Parameter.base (FireMode.criticalMultiplier self) \<and>
         Parameter.modded (FireMode.procChance self') = Parameter.base (FireMode.procChance self) \<and>
         Parameter.base (FireMode.procChance self') = Parameter.base (FireMode.procChance self) \<and>
         Parameter.modded (FireMode.multishot self') = Parameter.base (FireMode.multishot self) \<and>
         Parameter.base (FireMode.multishot self') = Parameter.base (FireMode.multishot self) \<and>
         Parameter.modded (fireRate self') = Parameter.base (fireRate self) \<and>
         Parameter.base (fireRate self') = Parameter.base (fireRate self) \<and>
         Parameter.modded (reloadTime self') = Parameter.base (reloadTime self) \<and>
         Parameter.base (reloadTime self') = Parameter.base (reloadTime self) \<and>
         ModifyParameter.modded (magazineSize self') = ModifyParameter.base (magazineSize self) \<and>
         ModifyParameter.base (magazineSize self') = ModifyParameter.base (magazineSize self) \<and>
         Parameter.modded (chargeTime self') = Parameter.base (chargeTime self) \<and>
         Parameter.base (chargeTime self') = Parameter.base (chargeTime self) \<and>
         Parameter.modded (FireMode.embedDelay self') = Parameter.base (FireMode.embedDelay self) \<and>
         Parameter.base (FireMode.embedDelay self') = Parameter.base (FireMode.embedDelay self) \<and>
         Parameter.modded (ammoCost self') = Parameter.base (ammoCost self) \<and>
         Parameter.base (ammoCost self') = Parameter.base (ammoCost self)"
proof -
  note sc = apply_mods_scalars[OF assms(1)]
  have m: "criticalChance_m self =
             \<lparr>critical_chance_bucket.base = 0, critical_chance_bucket.additive_base = 0,
              critical_chance_bucket.additive_final = 0, covenant = 0, deadly_munitions = 1\<rparr>"
    "criticalMultiplier_m self =
       \<lparr>critical_multiplier_bucket.base = 0, critical_multiplier_bucket.additive_base = 0,
        critical_multiplier_bucket.additive_final = 0,
        critical_multiplier_bucket.final_multiplier = 1\<rparr>"
    "procChance_m self =
       \<lparr>proc_chance_bucket.base = 0, proc_chance_bucket.additive_base = 0,
        proc_chance_bucket.additive_final = 0, proc_chance_bucket.final_multiplier = 1,
        proc_chance_bucket.multishot_multiplier = 1\<rparr>"
    "base_bucket.base (multishot_m self) = 0" "fire_rate_bucket.base (fireRate_m self) = 0"
    "base_bucket.base (reloadTime_m self) = 0" "base_bucket.base (magazineSize_m self) = 0"
    "ammo_cost_bucket.base (ammoCost_m self) = 0" "energized_munitions (ammoCost_m self) = 0"
    using assms(2) by (simp_all add: mods_of_def FireMode_attributes_def Let_def)
  show ?thesis
    unfolding sc(2-8,10-22) default_mods_arrays(1)[OF assms(1,2)] m by simp
qed

text \<open>
  On the semi-automatic example every modded value after the call is the number the
  data record (or the default of the constructor) gives as base: a fire rate of 5, a
  reload time of 1, a magazine of 2, a multishot of 2, an ammo cost of 1, and the
  quantized critical multiplier \<open>8192 / 4095\<close>.
\<close>

theorem apply_mods_identity_default_mods_witness:
  "\<exists>self'. apply_mods fire_mode_Y = Inr self' \<and>
      modded_damage self' = [10, 1, 0, 0, 0, 0, 0, 0, 0, 0, 0, 0, 0, 0, 0, 0, 0, 0, 0, 0] \<and>
      Parameter.modded (FireMode.criticalChance self') = 0 \<and> Parameter.base (FireMode.criticalChance self') = 0 \<and>
      Parameter.modded (FireMode.criticalMultiplier self') = 8192 / 4095 \<and> Parameter.base (FireMode.criticalMultiplier self') = 8192 / 4095 \<and>
      Parameter.modded (FireMode.procChance self') = 0 \<and> Parameter.base (FireMode.procChance self') = 0 \<and>
      Parameter.modded (FireMode.multishot self') = 2 \<and> Parameter.base (FireMode.multishot self') = 2 \<and>
      Parameter.modded (fireRate self') = 5 \<and> Parameter.base (fireRate self') = 5 \<and>
      Parameter.modded (reloadTime self') = 1 \<and> Parameter.base (reloadTime self') = 1 \<and>
      ModifyParameter.modded (magazineSize self') = 2 \<and> ModifyParameter.base (magazineSize self') = 2 \<and>
      Parameter.modded (chargeTime self') = 0 \<and> Parameter.base (chargeTime self') = 0 \<and>
      Parameter.modded (FireMode.embedDelay self') = 0 \<and> Parameter.base (FireMode.embedDelay self') = 0 \<and>
      Parameter.modded (ammoCost self') = 1 \<and> Parameter.base (ammoCost self') = 1"
proof -
  have b: "base_damage fire_mode_Y = [10, 1, 0, 0, 0, 0, 0, 0, 0, 0, 0, 0, 0, 0, 0, 0, 0, 0, 0, 0]"
    by (simp add: fire_mode_Y_def attributes_arrays weapon_Y_def empty_data_def dict_get_def)
  have v: "Parameter.base (FireMode.criticalChance fire_mode_Y) = 0"
    "Parameter.base (FireMode.criticalMultiplier fire_mode_Y) = 8192 / 4095"
    "Parameter.base (FireMode.procChance fire_mode_Y) = 0"
    "Parameter.base (FireMode.multishot fire_mode_Y) = 2"
    "Parameter.base (fireRate fire_mode_Y) = 5"
    "Parameter.base (reloadTime fire_mode_Y) = 1"
    "ModifyParameter.base (magazineSize fire_mode_Y) = 2"
    "Parameter.base (chargeTime fire_mode_Y) = 0"
    "Parameter.base (FireMode.embedDelay fire_mode_Y) = 0"
    "Parameter.base (ammoCost fire_mode_Y) = 1"
    by (simp_all add: fire_mode_Y_def load_mods_def FireMode_attributes_def Let_def
        Parameter_init_def ModifyParameter_init_def weapon_Y_def empty_data_def dict_get_def
        py_round_def)
  have "apply_mods_pre fire_mode_Y"
    unfolding fire_mode_Y_def attributes_pre
    by (simp add: weapon_Y_def empty_data_def dict_get_def)
  then obtain self' where s: "apply_mods fire_mode_Y = Inr self'"
    using apply_mods_returns by blast
  have m: "mods_of fire_mode_Y = mods_of (FireMode_attributes ''Y'' weapon_Y [])"
    unfolding fire_mode_Y_def by (rule attributes_mods)
  have p: "0 < sum_list (base_damage fire_mode_Y)"
    by (simp add: b)
  show ?thesis
    using apply_mods_identity_default_mods[OF s m p] s unfolding b v
    by (intro exI[of _ self']) simp
qed

section \<open>pull\_trigger\<close>

lemma put_event_effect:
  "scheduled (put_event t src f sim) = scheduled sim @ [event t src f]"
  "Simulacrum.time (put_event t src f sim) = Simulacrum.time sim"
  "call_index (put_event t src f sim) = Suc (call_index sim)"
  by (simp_all add: put_event_def get_call_index_def scheduled_def event_def)

lemma put_effects_effect:
  "scheduled (put_effects t enemy fmes sim) =
     scheduled sim @
     map (\<lambda>fme. event (FireModeEffect.embedDelay fme + t) (Effect fme) (Pellet_hit enemy)) fmes"
  "Simulacrum.time (put_effects t enemy fmes sim) = Simulacrum.time sim"
  "call_index (put_effects t enemy fmes sim) = call_index sim + length fmes"
  by (induction fmes arbitrary: sim) (simp_all add: put_event_effect)

lemma fire_cluster_effect:
  "scheduled (fire_cluster self enemy sim) =
     scheduled sim @ cluster_events self enemy (Simulacrum.time sim)"
  "Simulacrum.time (fire_cluster self enemy sim) = Simulacrum.time sim"
  "call_index (fire_cluster self enemy sim) =
     call_index sim + Suc (length (fire_mode_effects self))"
  by (simp_all add: fire_cluster_def Let_def put_effects_effect put_event_effect
      cluster_events_def)

lemma fire_clusters_effect:
  "scheduled (fire_clusters n self enemy sim) =
     scheduled sim @ concat (replicate n (cluster_events self enemy (Simulacrum.time sim)))"
  "Simulacrum.time (fire_clusters n self enemy sim) = Simulacrum.time sim"
  "call_index (fire_clusters n self enemy sim) =
     call_index sim + n * Suc (length (fire_mode_effects self))"
  by (induction n arbitrary: sim) (simp_all add: fire_cluster_effect)

lemma pull_trigger_result:
  fixes rnd :: real and self :: FireMode and sim :: Simulacrum
  assumes "Parameter.modded (fireRate self) \<noteq> 0"
  defines "roll \<equiv> get_tier rnd (Parameter.modded (FireMode.multishot self))"
    and "left \<equiv> current (magazineSize self) - Parameter.modded (ammoCost self)"
    and "held \<equiv> FireMode.trigger self = ''HELD''"
  defines "next_event \<equiv>
      Simulacrum.time sim +
      (if 0 < left then 1 / Parameter.modded (fireRate self)
       else max (Parameter.modded (reloadTime self)) (1 / Parameter.modded (fireRate self))) +
      Parameter.modded (chargeTime self)"
  shows "\<exists>self' sim'.
      pull_trigger rnd self fm enemy sim = Inr (self', sim') \<and>
      current (magazineSize self') =
        (if 0 < left then left else ModifyParameter.modded (magazineSize self)) \<and>
      ModifyParameter.base (magazineSize self') = ModifyParameter.base (magazineSize self) \<and>
      ModifyParameter.modded (magazineSize self') = ModifyParameter.modded (magazineSize self) \<and>
      damagePerShot_m self' =
        (if held then (damagePerShot_m self)\<lparr>damage_bucket.multishot_multiplier := of_int roll\<rparr>
         else damagePerShot_m self) \<and>
      procChance_m self' =
        (if held then (procChance_m self)\<lparr>proc_chance_bucket.multishot_multiplier := of_int roll\<rparr>
         else procChance_m self) \<and>
      scheduled sim' =
        scheduled sim @
        concat (replicate (if held then 1 else nat roll)
                  (cluster_events self enemy (Simulacrum.time sim))) @
        [event next_event fm (Pull_trigger (FireMode.name self))] \<and>
      Simulacrum.time sim' = Simulacrum.time sim"
  using assms(1)
  unfolding roll_def left_def held_def next_event_def
  by (simp add: pull_trigger_def Let_def fire_clusters_effect fire_cluster_effect
      put_event_effect cluster_events_def)

lemma pull_trigger_zero_fire_rate:
  "Parameter.modded (fireRate self) = 0 \<Longrightarrow>
   pull_trigger rnd self fm enemy sim = Inl ZeroDivisionError"
  by (simp add: pull_trigger_def Let_def split: prod.splits)

lemma fire_mode_Y_fields:
  "FireMode.name fire_mode_Y = ''Y''" "FireMode.trigger fire_mode_Y = ''AUTO''"
  "fire_mode_effects fire_mode_Y = []"
  "magazineSize fire_mode_Y = \<lparr>ModifyParameter.base = 2, modded = 2, current = 2\<rparr>"
  "Parameter.modded (fireRate fire_mode_Y) = 5" "Parameter.modded (reloadTime fire_mode_Y) = 1"
  "Parameter.modded (chargeTime fire_mode_Y) = 0" "Parameter.modded (ammoCost fire_mode_Y) = 1"
  "Parameter.modded (FireMode.multishot fire_mode_Y) = 2"
  "Parameter.modded (FireMode.embedDelay fire_mode_Y) = 0"
  by (simp_all add: fire_mode_Y_def load_mods_def FireMode_attributes_def Let_def
      Parameter_init_def ModifyParameter_init_def weapon_Y_def empty_data_def dict_get_def)

lemma fire_mode_X_fields:
  "FireMode.name fire_mode_X = ''X''" "FireMode.trigger fire_mode_X = ''HELD''"
  "fire_mode_effects fire_mode_X = [explosion]"
  "magazineSize fire_mode_X = \<lparr>ModifyParameter.base = 100, modded = 100, current = 100\<rparr>"
  "Parameter.modded (fireRate fire_mode_X) = 5" "Parameter.modded (reloadTime fire_mode_X) = 1"
  "Parameter.modded (chargeTime fire_mode_X) = 0" "Parameter.modded (ammoCost fire_mode_X) = 1"
  "Parameter.modded (FireMode.multishot fire_mode_X) = 3 / 2"
  "Parameter.modded (FireMode.embedDelay fire_mode_X) = 0"
  by (simp_all add: fire_mode_X_def load_mods_def FireMode_attributes_def Let_def
      Parameter_init_def ModifyParameter_init_def weapon_X_def empty_data_def dict_get_def)

text \<open>
  Claim C4. A call of \<^verbatim>\<open>pull_trigger\<close> on a fire mode whose modded fire rate is not 0
  returns (a fire rate of 0 raises \<^verbatim>\<open>ZeroDivisionError\<close>: \<open>pull_trigger_zero_fire_rate\<close>),
  and what it puts on the queue is a list of pellet hits followed by one
  \<^verbatim>\<open>pull_trigger\<close> event. If the current ammo less the modded ammo cost is positive, that
  is the new current ammo and the event is at
  \<open>time + 1/fireRate.modded + chargeTime.modded\<close>; otherwise the current ammo becomes
  \<open>magazineSize.modded\<close> and the event is at
  \<open>time + max(reloadTime.modded, 1/fireRate.modded) + chargeTime.modded\<close>.
\<close>

theorem pull_trigger_next_event:
  assumes "Parameter.modded (fireRate self) \<noteq> 0"
  shows "\<exists>self' sim' hits.
      pull_trigger rnd self fm enemy sim = Inr (self', sim') \<and>
      (\<forall>h \<in> set hits. func (snd h) = Pellet_hit enemy) \<and>
      (if 0 < current (magazineSize self) - Parameter.modded (ammoCost self)
       then current (magazineSize self') =
              current (magazineSize self) - Parameter.modded (ammoCost self) \<and>
            scheduled sim' =
              scheduled sim @ hits @
              [event (Simulacrum.time sim + 1 / Parameter.modded (fireRate self) +
                        Parameter.modded (chargeTime self))
                 fm (Pull_trigger (FireMode.name self))]
       else current (magazineSize self') = ModifyParameter.modded (magazineSize self) \<and>
            scheduled sim' =
              scheduled sim @ hits @
              [event (Simulacrum.time sim +
                        max (Parameter.modded (reloadTime self))
                            (1 / Parameter.modded (fireRate self)) +
                        Parameter.modded (chargeTime self))
                 fm (Pull_trigger (FireMode.name self))])"
proof -
  define n where
    "n = (if FireMode.trigger self = ''HELD'' then 1
          else nat (get_tier rnd (Parameter.modded (FireMode.multishot self))))"
  define hits where
    "hits = concat (replicate n (cluster_events self enemy (Simulacrum.time sim)))"
  have "\<forall>h \<in> set hits. func (snd h) = Pellet_hit enemy"
    by (auto simp: hits_def cluster_events_def event_def)
  moreover obtain self' sim' where
    "pull_trigger rnd self fm enemy sim = Inr (self', sim')"
    "current (magazineSize self') =
       (if 0 < current (magazineSize self) - Parameter.modded (ammoCost self)
        then current (magazineSize self) - Parameter.modded (ammoCost self)
        else ModifyParameter.modded (magazineSize self))"
    "scheduled sim' =
       scheduled sim @ hits @
       [event (Simulacrum.time sim +
                 (if 0 < current (magazineSize self) - Parameter.modded (ammoCost self)
                  then 1 / Parameter.modded (fireRate self)
                  else max (Parameter.modded (reloadTime self))
                           (1 / Parameter.modded (fireRate self))) +
                 Parameter.modded (chargeTime self))
          fm (Pull_trigger (FireMode.name self))]"
    using pull_trigger_result[OF assms, of rnd fm enemy sim] unfolding hits_def n_def
    by blast
  ultimately show ?thesis
    by (intro exI[of _ self'] exI[of _ sim'] exI[of _ hits]) (simp split: if_splits)
qed

text \<open>
  The semi-automatic example: with 2 rounds the call leaves 1 and schedules the next
  pull at \<open>1/5\<close>; with 1 round it reloads to 2 and schedules the next pull at
  \<open>max(1, 1/5) = 1\<close>.
\<close>

theorem pull_trigger_next_event_witness:
  "Parameter.modded (fireRate fire_mode_Y) \<noteq> 0 \<and>
   (\<exists>self' sim'.
      pull_trigger (1 / 2) fire_mode_Y (Fire_mode ''Y'') ''target'' sim0 = Inr (self', sim') \<and>
      current (magazineSize self') = 1 \<and>
      last (scheduled sim') = event (1 / 5) (Fire_mode ''Y'') (Pull_trigger ''Y'')) \<and>
   (\<exists>self' sim'.
      pull_trigger (1 / 2)
        (fire_mode_Y\<lparr>magazineSize := (magazineSize fire_mode_Y)\<lparr>current := 1\<rparr>\<rparr>)
        (Fire_mode ''Y'') ''target'' sim0 = Inr (self', sim') \<and>
      current (magazineSize self') = 2 \<and>
      last (scheduled sim') = event 1 (Fire_mode ''Y'') (Pull_trigger ''Y''))"
proof -
  have f: "Parameter.modded (fireRate fire_mode_Y) \<noteq> 0"
    by (simp add: fire_mode_Y_fields)
  have g: "Parameter.modded
             (fireRate (fire_mode_Y\<lparr>magazineSize := (magazineSize fire_mode_Y)\<lparr>current := 1\<rparr>\<rparr>)) \<noteq> 0"
    by (simp add: fire_mode_Y_fields)
  show ?thesis
    using pull_trigger_next_event[OF f, of "1 / 2" "Fire_mode ''Y''" "''target''" sim0]
      pull_trigger_next_event[OF g, of "1 / 2" "Fire_mode ''Y''" "''target''" sim0]
    by (auto simp: fire_mode_Y_fields sim0_def)
qed

text \<open>
  Claim C5. A call of \<^verbatim>\<open>pull_trigger\<close> on a fire mode whose trigger is \<^verbatim>\<open>HELD\<close> (and whose
  modded fire rate is not 0) writes the multishot roll into the
  \<^verbatim>\<open>multishot_multiplier\<close> entry of the damage bucket and of the status-chance bucket,
  puts exactly one cluster on the queue (the primary hit, then one hit per fire mode
  effect) before the next \<^verbatim>\<open>pull_trigger\<close> event, and takes \<open>ammoCost.modded\<close> from the
  magazine once, whatever the roll: the new current ammo depends on the old one and
  the ammo cost only.
\<close>

theorem pull_trigger_held:
  assumes "FireMode.trigger self = ''HELD''"
    and "Parameter.modded (fireRate self) \<noteq> 0"
  shows "\<exists>self' sim' next_event.
      pull_trigger rnd self fm enemy sim = Inr (self', sim') \<and>
      damage_bucket.multishot_multiplier (damagePerShot_m self') =
        of_int (get_tier rnd (Parameter.modded (FireMode.multishot self))) \<and>
      proc_chance_bucket.multishot_multiplier (procChance_m self') =
        of_int (get_tier rnd (Parameter.modded (FireMode.multishot self))) \<and>
      scheduled sim' =
        scheduled sim @
        event (Simulacrum.time sim + Parameter.modded (FireMode.embedDelay self))
          (Fire_mode (FireMode.name self)) (Pellet_hit enemy) #
        map (\<lambda>fme. event (FireModeEffect.embedDelay fme +
                            (Simulacrum.time sim + Parameter.modded (FireMode.embedDelay self)))
                     (Effect fme) (Pellet_hit enemy))
          (fire_mode_effects self) @
        [event next_event fm (Pull_trigger (FireMode.name self))] \<and>
      current (magazineSize self') =
        (if 0 < current (magazineSize self) - Parameter.modded (ammoCost self)
         then current (magazineSize self) - Parameter.modded (ammoCost self)
         else ModifyParameter.modded (magazineSize self))"
  using pull_trigger_result[OF assms(2), of rnd fm enemy sim] assms(1)
  by (auto simp: cluster_events_def)

text \<open>
  The charge weapon with a multishot of 1.5 and a random draw of 0.25 rolls 2: both
  multipliers become 2, the queue gets one primary hit, one hit of the effect and
  the next pull, and the magazine goes from 100 to 99.
\<close>

theorem pull_trigger_held_witness:
  "FireMode.trigger fire_mode_X = ''HELD'' \<and> Parameter.modded (fireRate fire_mode_X) \<noteq> 0 \<and>
   get_tier (1 / 4) (Parameter.modded (FireMode.multishot fire_mode_X)) = 2 \<and>
   (\<exists>self' sim' next_event.
      pull_trigger (1 / 4) fire_mode_X (Fire_mode ''X'') ''target'' sim0 = Inr (self', sim') \<and>
      damage_bucket.multishot_multiplier (damagePerShot_m self') = 2 \<and>
      proc_chance_bucket.multishot_multiplier (procChance_m self') = 2 \<and>
      scheduled sim' =
        [event 0 (Fire_mode ''X'') (Pellet_hit ''target''),
         event (1 / 2) (Effect explosion) (Pellet_hit ''target''),
         event next_event (Fire_mode ''X'') (Pull_trigger ''X'')] \<and>
      current (magazineSize self') = 99)"
proof -
  have h: "FireMode.trigger fire_mode_X = ''HELD''"
    and f: "Parameter.modded (fireRate fire_mode_X) \<noteq> 0"
    and t: "get_tier (1 / 4) (Parameter.modded (FireMode.multishot fire_mode_X)) = 2"
    by (simp_all add: fire_mode_X_fields get_tier_def py_mod1_def py_int_def)
  have e: "FireModeEffect.embedDelay explosion = 1 / 2"
    by (simp add: explosion_def)
  show ?thesis
    using pull_trigger_held[OF h f, of "1 / 4" "Fire_mode ''X''" "''target''" sim0] h f t
    by (simp add: fire_mode_X_fields sim0_def scheduled_def e)
qed

section \<open>Fire mode effects\<close>

lemma FireMode_init_with_effects:
  "secondaryEffects data \<noteq> [] \<Longrightarrow> FireMode_init M nm data = Inl AttributeError"
  by (cases "secondaryEffects data")
     (auto simp: FireMode_init_def FireModeEffect_init_def)

text \<open>
  Claim C6, as amended. A \<^verbatim>\<open>FireModeEffect\<close> built from an effect record on a parent whose
  parameters are assigned takes each of damage, critical chance, critical multiplier,
  status chance, multishot and embed delay from its own record when the record has
  it. Otherwise damage, critical chance, critical multiplier and status chance are
  bound to the parent's parameter object for the field, multishot is 1 and the embed
  delay is 0.
\<close>

theorem FireModeEffect_overrides:
  "\<exists>fme. FireModeEffect_init M (Some parent) nm data = Inr fme \<and>
     (\<forall>v. EffectData.damagePerShot data = Some v \<longrightarrow> FireModeEffect.damagePerShot fme = Own v) \<and>
     (EffectData.damagePerShot data = None \<longrightarrow>
        FireModeEffect.damagePerShot fme = Parent_parameter) \<and>
     (\<forall>v. EffectData.criticalChance data = Some v \<longrightarrow>
        FireModeEffect.criticalChance fme = Own v) \<and>
     (EffectData.criticalChance data = None \<longrightarrow>
        FireModeEffect.criticalChance fme = Parent_parameter) \<and>
     (\<forall>v. EffectData.criticalMultiplier data = Some v \<longrightarrow>
        FireModeEffect.criticalMultiplier fme = Own v) \<and>
     (EffectData.criticalMultiplier data = None \<longrightarrow>
        FireModeEffect.criticalMultiplier fme = Parent_parameter) \<and>
     (\<forall>v. EffectData.procChance data = Some v \<longrightarrow> FireModeEffect.procChance fme = Own v) \<and>
     (EffectData.procChance data = None \<longrightarrow> FireModeEffect.procChance fme = Parent_parameter) \<and>
     (\<forall>v. EffectData.multishot data = Some v \<longrightarrow> FireModeEffect.multishot fme = v) \<and>
     (EffectData.multishot data = None \<longrightarrow> FireModeEffect.multishot fme = 1) \<and>
     (\<forall>v. EffectData.embedDelay data = Some v \<longrightarrow> FireModeEffect.embedDelay fme = v) \<and>
     (EffectData.embedDelay data = None \<longrightarrow> FireModeEffect.embedDelay fme = 0)"
  by (simp add: FireModeEffect_init_def dict_get_def)

theorem FireModeEffect_overrides_witness:
  "\<exists>fme. FireModeEffect_init 0 (Some fire_mode_X) ''explosion''
            (empty_effect\<lparr>EffectData.criticalChance := Some (1 / 4),
                          EffectData.embedDelay := Some (1 / 2)\<rparr>) = Inr fme \<and>
     FireModeEffect.damagePerShot fme = Parent_parameter \<and>
     FireModeEffect.criticalChance fme = Own (1 / 4) \<and>
     FireModeEffect.criticalMultiplier fme = Parent_parameter \<and>
     FireModeEffect.procChance fme = Parent_parameter \<and>
     FireModeEffect.multishot fme = 1 \<and>
     FireModeEffect.embedDelay fme = 1 / 2"
proof -
  define d where
    "d = empty_effect\<lparr>EffectData.criticalChance := Some (1 / 4),
                       EffectData.embedDelay := Some (1 / 2)\<rparr>"
  have d: "EffectData.damagePerShot d = None" "EffectData.criticalChance d = Some (1 / 4)"
    "EffectData.criticalMultiplier d = None" "EffectData.procChance d = None"
    "EffectData.multishot d = None" "EffectData.embedDelay d = Some (1 / 2)"
    by (simp_all only: d_def empty_effect_def EffectData.simps)
  from FireModeEffect_overrides[of 0 fire_mode_X "''explosion''" d]
  obtain fme where i: "FireModeEffect_init 0 (Some fire_mode_X) ''explosion'' d = Inr fme"
    and a: "EffectData.damagePerShot d = None \<longrightarrow>
              FireModeEffect.damagePerShot fme = Parent_parameter"
      "\<forall>v. EffectData.criticalChance d = Some v \<longrightarrow> FireModeEffect.criticalChance fme = Own v"
      "EffectData.criticalMultiplier d = None \<longrightarrow>
         FireModeEffect.criticalMultiplier fme = Parent_parameter"
      "EffectData.procChance d = None \<longrightarrow> FireModeEffect.procChance fme = Parent_parameter"
      "EffectData.multishot d = None \<longrightarrow> FireModeEffect.multishot fme = 1"
      "\<forall>v. EffectData.embedDelay d = Some v \<longrightarrow> FireModeEffect.embedDelay fme = v"
    by (elim exE conjE)
  have "FireModeEffect.damagePerShot fme = Parent_parameter"
    "FireModeEffect.criticalChance fme = Own (1 / 4)"
    "FireModeEffect.criticalMultiplier fme = Parent_parameter"
    "FireModeEffect.procChance fme = Parent_parameter"
    "FireModeEffect.multishot fme = 1"
    "FireModeEffect.embedDelay fme = 1 / 2"
    using a(1)[rule_format, OF d(1)] a(2)[rule_format, OF d(2)] a(3)[rule_format, OF d(3)]
      a(4)[rule_format, OF d(4)] a(5)[rule_format, OF d(5)] a(6)[rule_format, OF d(6)]
    by - assumption+
  with i show ?thesis
    unfolding d_def by (intro exI[of _ fme] conjI)
qed

text \<open>
  Multishot does not default to the parent's modded value: on the charge weapon, whose
  modded multishot is 1.5, an effect with an empty record has a multishot of 1.
\<close>

theorem FireModeEffect_multishot_counterexample:
  "FireModeEffect.multishot
     (projr (FireModeEffect_init 0 (Some fire_mode_X) ''explosion'' empty_effect)) = 1 \<and>
   Parameter.modded (FireMode.multishot fire_mode_X) = 3 / 2"
  by (simp add: FireModeEffect_init_def empty_effect_def dict_get_def fire_mode_X_fields)

end
